theory Spec2Isabelle
  imports Complex_Main "HOL-Library.Word"
begin

section \<open>Data model of blackhole.c\<close>

text \<open>
  The C type \<^verbatim>\<open>float\<close> and the GLSL type \<^verbatim>\<open>float\<close> are read as \<^typ>\<open>real\<close> in
  the first model of the program: its statements are about the branches the
  code takes and the formulas it computes, with \<^verbatim>\<open>sqrtf\<close> as \<^term>\<open>sqrt\<close>.
  \<^verbatim>\<open>unsigned char\<close> is \<^typ>\<open>8 word\<close>.

  Two properties depend on how a \<^verbatim>\<open>float\<close> rounds: whether the time dilation
  grows strictly with the distance, and whether \<open>N\<close> frames add exactly \<open>N\<close>
  times the frame time. For these \<^verbatim>\<open>CalculateTimeDilation\<close> and
  \<^verbatim>\<open>UpdateSimulation\<close> are modelled a second time, on IEEE 754 binary32
  numbers (sections on binary32 below), and the statements are made there.

  Field names carry a prefix where two structs of the source share a name
  (\<^verbatim>\<open>position\<close>, \<^verbatim>\<open>x\<close>, \<^verbatim>\<open>y\<close>, ...).
\<close>

record Vector2 =
  v2_x :: real
  v2_y :: real

record Vector3 =
  v3_x :: real
  v3_y :: real
  v3_z :: real

record Vector4 =
  v4_x :: real
  v4_y :: real
  v4_z :: real
  v4_w :: real

record Color =
  c_r :: "8 word"
  c_g :: "8 word"
  c_b :: "8 word"
  c_a :: "8 word"

record Camera3D =
  cam_position :: Vector3
  cam_target :: Vector3
  cam_up :: Vector3
  fovy :: real
  projection :: int

record BlackHole =
  bh_position :: Vector3
  mass :: real
  schwarzschildRadius :: real
  iscoRadius :: real

record Star =
  star_position :: Vector3
  brightness :: real
  star_color :: Color

record AccretionDisk =
  innerRadius :: real
  outerRadius :: real
  rotationSpeed :: real
  temperature :: real
  hotColor :: Color
  coolColor :: Color

text \<open>
  \<^verbatim>\<open>Star stars[MAX_STARS]\<close> is an array of fixed size: it is a function from
  the index to the star, of which the code reads and writes the indices below
  \<^verbatim>\<open>MAX_STARS\<close> only.
\<close>

definition MAX_STARS :: nat where
  "MAX_STARS = 1000"

record SimulationState =
  camera :: Camera3D
  blackHole :: BlackHole
  disk :: AccretionDisk
  stars :: "nat \<Rightarrow> Star"
  time :: real
  timeDilation :: real
  showLensing :: bool
  showDisk :: bool
  showTimeEffects :: bool

section \<open>raymath\<close>

text \<open>
  \<^verbatim>\<open>Vector3Distance\<close> of raymath.h: the square root of the sum of the squared
  coordinate differences.
\<close>

definition Vector3Distance :: "Vector3 \<Rightarrow> Vector3 \<Rightarrow> real" where
  "Vector3Distance v1 v2 =
     (let dx = v3_x v2 - v3_x v1;
          dy = v3_y v2 - v3_y v1;
          dz = v3_z v2 - v3_z v1
      in sqrt (dx * dx + dy * dy + dz * dz))"

section \<open>Physics\<close>

definition CalculateTimeDilation :: "Vector3 \<Rightarrow> BlackHole \<Rightarrow> real" where
  "CalculateTimeDilation pos bh =
     (let distance = Vector3Distance pos (bh_position bh);
          rs = schwarzschildRadius bh
      in if distance \<le> rs then 0
         else (let factor = 1 - (rs / distance)
               in if factor \<le> 0 then 0 else sqrt factor))"

text \<open>
  \<^verbatim>\<open>UpdateSimulation\<close>: the value \<^verbatim>\<open>GetFrameTime()\<close> returns is the first
  argument; the state the pointer refers to is passed in and returned.
\<close>

definition UpdateSimulation :: "real \<Rightarrow> SimulationState \<Rightarrow> SimulationState" where
  "UpdateSimulation frameTime sim =
     (let deltaTime = frameTime
      in if showTimeEffects sim
         then (let sim1 = sim\<lparr>timeDilation :=
                              CalculateTimeDilation (cam_position (camera sim)) (blackHole sim)\<rparr>;
                   deltaTime1 = deltaTime * timeDilation sim1
               in sim1\<lparr>time := time sim1 + deltaTime1\<rparr>)
         else sim\<lparr>time := time sim + deltaTime\<rparr>)"


section \<open>Initialisation\<close>

text \<open>
  \<^verbatim>\<open>SimulationState sim = {0}\<close> in \<^verbatim>\<open>main\<close>: every field zero.
\<close>

definition vec3_zero :: Vector3 where
  "vec3_zero = \<lparr>v3_x = 0, v3_y = 0, v3_z = 0\<rparr>"

definition color_zero :: Color where
  "color_zero = \<lparr>c_r = 0, c_g = 0, c_b = 0, c_a = 0\<rparr>"

definition sim_zero :: SimulationState where
  "sim_zero =
     \<lparr>camera = \<lparr>cam_position = vec3_zero, cam_target = vec3_zero, cam_up = vec3_zero,
                 fovy = 0, projection = 0\<rparr>,
      blackHole = \<lparr>bh_position = vec3_zero, mass = 0, schwarzschildRadius = 0, iscoRadius = 0\<rparr>,
      disk = \<lparr>innerRadius = 0, outerRadius = 0, rotationSpeed = 0, temperature = 0,
               hotColor = color_zero, coolColor = color_zero\<rparr>,
      stars = (\<lambda>i. \<lparr>star_position = vec3_zero, brightness = 0, star_color = color_zero\<rparr>),
      time = 0, timeDilation = 0,
      showLensing = False, showDisk = False, showTimeEffects = False\<rparr>"

definition CAMERA_PERSPECTIVE :: int where
  "CAMERA_PERSPECTIVE = 0"

text \<open>
  The conversion \<^verbatim>\<open>(unsigned char)\<close> of a \<^verbatim>\<open>float\<close> drops the fraction (towards
  zero).
\<close>

definition float_to_uchar :: "real \<Rightarrow> 8 word" where
  "float_to_uchar v = word_of_int (if 0 \<le> v then \<lfloor>v\<rfloor> else \<lceil>v\<rceil>)"

text \<open>
  The loop of \<^verbatim>\<open>InitSimulation\<close> over the stars, from index \<open>i\<close> on.
  \<open>rnd i k\<close> is what the \<open>k\<close>-th call of \<^verbatim>\<open>GetRandomValue\<close> returns in the
  iteration for star \<open>i\<close> (\<open>k = 0, 1, 2\<close> for the coordinates, \<open>3\<close> for the
  brightness).
\<close>

function InitSimulation_stars ::
  "(nat \<Rightarrow> nat \<Rightarrow> int) \<Rightarrow> SimulationState \<Rightarrow> nat \<Rightarrow> SimulationState" where
  "InitSimulation_stars rnd sim i =
     (if i < MAX_STARS
      then (let s0 = stars sim i;
                s1 = s0\<lparr>star_position := \<lparr>v3_x = real_of_int (rnd i 0),
                                          v3_y = real_of_int (rnd i 1),
                                          v3_z = real_of_int (rnd i 2)\<rparr>\<rparr>;
                s2 = s1\<lparr>brightness := real_of_int (rnd i 3) / 255\<rparr>;
                s3 = s2\<lparr>star_color := \<lparr>c_r = float_to_uchar (brightness s2 * 255),
                                       c_g = float_to_uchar (brightness s2 * 255),
                                       c_b = float_to_uchar (brightness s2 * 255),
                                       c_a = 255\<rparr>\<rparr>
            in InitSimulation_stars rnd (sim\<lparr>stars := (stars sim)(i := s3)\<rparr>) (Suc i))
      else sim)"
  by pat_completeness auto
termination
  by (relation "measure (\<lambda>(rnd, sim, i). MAX_STARS - i)") auto

declare InitSimulation_stars.simps [simp del]

definition InitSimulation ::
  "(nat \<Rightarrow> nat \<Rightarrow> int) \<Rightarrow> SimulationState \<Rightarrow> SimulationState" where
  "InitSimulation rnd sim =
     (let sim1 = sim\<lparr>camera := (camera sim)
                   \<lparr>cam_position := \<lparr>v3_x = 0, v3_y = 5, v3_z = 30\<rparr>,
                    cam_target := \<lparr>v3_x = 0, v3_y = 0, v3_z = 0\<rparr>,
                    cam_up := \<lparr>v3_x = 0, v3_y = 1, v3_z = 0\<rparr>,
                    fovy := 45,
                    projection := CAMERA_PERSPECTIVE\<rparr>\<rparr>;
          sim2 = sim1\<lparr>blackHole := (blackHole sim1)
                   \<lparr>bh_position := \<lparr>v3_x = 0, v3_y = 0, v3_z = 0\<rparr>,
                    mass := 1,
                    schwarzschildRadius := 2,
                    iscoRadius := 6\<rparr>\<rparr>;
          sim3 = sim2\<lparr>disk := (disk sim2)
                   \<lparr>innerRadius := iscoRadius (blackHole sim2),
                    outerRadius := 20,
                    rotationSpeed := 1,
                    hotColor := \<lparr>c_r = 255, c_g = 200, c_b = 50, c_a = 255\<rparr>,
                    coolColor := \<lparr>c_r = 200, c_g = 50, c_b = 25, c_a = 255\<rparr>\<rparr>\<rparr>;
          sim4 = InitSimulation_stars rnd sim3 0
      in sim4\<lparr>time := 0, timeDilation := 1,
               showLensing := True, showDisk := True, showTimeEffects := True\<rparr>)"

section \<open>Drawing\<close>

text \<open>
  What the program draws is the sequence of its calls into raylib, in order.
\<close>

datatype ShaderId = lensShader | diskShader

datatype UniformValue =
  SHADER_UNIFORM_FLOAT real
| SHADER_UNIFORM_VEC2 Vector2
| SHADER_UNIFORM_VEC3 Vector3

record Rectangle =
  rec_x :: real
  rec_y :: real
  rec_width :: real
  rec_height :: real

datatype GfxCall =
  BeginDrawing
| EndDrawing
| ClearBackground Color
| BeginTextureMode
| EndTextureMode
| BeginMode3D Camera3D
| EndMode3D
| BeginShaderMode ShaderId
| EndShaderMode
| SetShaderValue ShaderId string UniformValue
| DrawCube Vector3 real real real Color
| DrawCylinderEx Vector3 Vector3 real real int Color
| DrawSphere Vector3 real Color
| DrawCircle3D Vector3 real Vector3 real Color
| DrawTextureRec Rectangle Vector2 Color

text \<open>
  The colours of raylib.h that the program names, and \<^verbatim>\<open>Fade\<close>, which clamps
  \<open>alpha\<close> to \<open>[0, 1]\<close> and replaces the alpha channel. The program fades a
  colour of alpha 255 only.
\<close>

definition BLACK :: Color where
  "BLACK = \<lparr>c_r = 0, c_g = 0, c_b = 0, c_a = 255\<rparr>"

definition WHITE :: Color where
  "WHITE = \<lparr>c_r = 255, c_g = 255, c_b = 255, c_a = 255\<rparr>"

definition ORANGE :: Color where
  "ORANGE = \<lparr>c_r = 255, c_g = 161, c_b = 0, c_a = 255\<rparr>"

definition YELLOW :: Color where
  "YELLOW = \<lparr>c_r = 253, c_g = 249, c_b = 0, c_a = 255\<rparr>"

definition Fade :: "Color \<Rightarrow> real \<Rightarrow> Color" where
  "Fade color alpha =
     (let alpha1 = (if alpha < 0 then 0 else if alpha > 1 then 1 else alpha)
      in color\<lparr>c_a := float_to_uchar (255 * alpha1)\<rparr>)"

definition SCREEN_WIDTH :: real where
  "SCREEN_WIDTH = 1024"

definition SCREEN_HEIGHT :: real where
  "SCREEN_HEIGHT = 768"

text \<open>The loop of \<^verbatim>\<open>DrawStarfield\<close>, from index \<open>i\<close> on.\<close>

function DrawStarfield_from :: "SimulationState \<Rightarrow> nat \<Rightarrow> GfxCall list" where
  "DrawStarfield_from sim i =
     (if i < MAX_STARS
      then (let pos = star_position (stars sim i);
                distance = Vector3Distance pos (bh_position (blackHole sim))
            in (if distance > schwarzschildRadius (blackHole sim) * 2
                then [DrawCube pos 0.2 0.2 0.2 (star_color (stars sim i))]
                else [])
               @ DrawStarfield_from sim (Suc i))
      else [])"
  by pat_completeness auto
termination
  by (relation "measure (\<lambda>(sim, i). MAX_STARS - i)") auto

declare DrawStarfield_from.simps [simp del]

definition DrawStarfield :: "SimulationState \<Rightarrow> GfxCall list" where
  "DrawStarfield sim = DrawStarfield_from sim 0"

definition DrawAccretionDisk :: "SimulationState \<Rightarrow> ShaderId \<Rightarrow> GfxCall list" where
  "DrawAccretionDisk sim shader =
     [BeginShaderMode shader,
      DrawCylinderEx
        \<lparr>v3_x = v3_x (bh_position (blackHole sim)),
         v3_y = v3_y (bh_position (blackHole sim)) - 0.1,
         v3_z = v3_z (bh_position (blackHole sim))\<rparr>
        \<lparr>v3_x = v3_x (bh_position (blackHole sim)),
         v3_y = v3_y (bh_position (blackHole sim)) + 0.1,
         v3_z = v3_z (bh_position (blackHole sim))\<rparr>
        (outerRadius (disk sim)) (innerRadius (disk sim)) 32 ORANGE,
      EndShaderMode]"

definition DrawBlackHole :: "SimulationState \<Rightarrow> GfxCall list" where
  "DrawBlackHole sim =
     [DrawSphere (bh_position (blackHole sim)) (schwarzschildRadius (blackHole sim)) BLACK,
      DrawCircle3D (bh_position (blackHole sim)) (iscoRadius (blackHole sim))
        \<lparr>v3_x = 1, v3_y = 0, v3_z = 0\<rparr> 90 (Fade YELLOW 0.3)]"

text \<open>
  The drawing part of one turn of the loop of \<^verbatim>\<open>main\<close>, from \<^verbatim>\<open>BeginDrawing\<close> to
  \<^verbatim>\<open>EndDrawing\<close>, without the text of the head-up display (\<^verbatim>\<open>DrawText\<close>), which
  touches no shader. A uniform's location is written as the name
  \<^verbatim>\<open>GetShaderLocation\<close> was asked for. \<^verbatim>\<open>BeginTextureMode\<close> and \<^verbatim>\<open>DrawTextureRec\<close>
  go without their first argument, which is always the one render texture
  \<^verbatim>\<open>target\<close>, of the size of the screen.
\<close>

definition main_draw :: "SimulationState \<Rightarrow> GfxCall list" where
  "main_draw sim =
     [BeginDrawing, ClearBackground BLACK]
     @ (if showLensing sim
        then [BeginTextureMode, ClearBackground BLACK, BeginMode3D (camera sim)]
             @ DrawStarfield sim
             @ (if showDisk sim then DrawAccretionDisk sim diskShader else [])
             @ DrawBlackHole sim
             @ [EndMode3D, EndTextureMode]
             @ (let lensCenter = \<lparr>v2_x = SCREEN_WIDTH * 0.5, v2_y = SCREEN_HEIGHT * 0.5\<rparr>;
                    lensStrength = schwarzschildRadius (blackHole sim) * 5000;
                    screenSize = \<lparr>v2_x = SCREEN_WIDTH, v2_y = SCREEN_HEIGHT\<rparr>
                in [SetShaderValue lensShader ''lensCenter'' (SHADER_UNIFORM_VEC2 lensCenter),
                    SetShaderValue lensShader ''lensStrength'' (SHADER_UNIFORM_FLOAT lensStrength),
                    SetShaderValue lensShader ''screenSize'' (SHADER_UNIFORM_VEC2 screenSize),
                    BeginShaderMode lensShader,
                    DrawTextureRec
                      \<lparr>rec_x = 0, rec_y = 0, rec_width = SCREEN_WIDTH, rec_height = - SCREEN_HEIGHT\<rparr>
                      \<lparr>v2_x = 0, v2_y = 0\<rparr> WHITE,
                    EndShaderMode])
        else [BeginMode3D (camera sim)]
             @ DrawStarfield sim
             @ (if showDisk sim
                then [SetShaderValue diskShader ''time'' (SHADER_UNIFORM_FLOAT (time sim)),
                      SetShaderValue diskShader ''blackHolePos''
                        (SHADER_UNIFORM_VEC3 (bh_position (blackHole sim))),
                      SetShaderValue diskShader ''innerRadius''
                        (SHADER_UNIFORM_FLOAT (innerRadius (disk sim))),
                      SetShaderValue diskShader ''outerRadius''
                        (SHADER_UNIFORM_FLOAT (outerRadius (disk sim)))]
                     @ (let hotColor3 = \<lparr>v3_x = 1.0, v3_y = 0.8, v3_z = 0.2\<rparr>;
                            coolColor3 = \<lparr>v3_x = 0.8, v3_y = 0.2, v3_z = 0.1\<rparr>
                        in [SetShaderValue diskShader ''hotColor'' (SHADER_UNIFORM_VEC3 hotColor3),
                            SetShaderValue diskShader ''coolColor'' (SHADER_UNIFORM_VEC3 coolColor3)])
                     @ DrawAccretionDisk sim diskShader
                else [])
             @ DrawBlackHole sim
             @ [EndMode3D])
     @ [EndDrawing]"

text \<open>
  The uniforms the disk fragment shader declares, and the check that a sequence
  of calls sets each of them for the disk shader before every draw of the disk
  (\<^verbatim>\<open>DrawCylinderEx\<close>): \<open>seen\<close> holds the names set so far.
\<close>

definition disk_uniform_names :: "string list" where
  "disk_uniform_names =
     [''time'', ''blackHolePos'', ''innerRadius'', ''outerRadius'', ''hotColor'', ''coolColor'']"

fun disk_uniforms_set_before_draw :: "string list \<Rightarrow> GfxCall list \<Rightarrow> bool" where
  "disk_uniforms_set_before_draw seen [] = True"
| "disk_uniforms_set_before_draw seen (SetShaderValue sh name v # cs) =
     disk_uniforms_set_before_draw (if sh = diskShader then name # seen else seen) cs"
| "disk_uniforms_set_before_draw seen (DrawCylinderEx p1 p2 r1 r2 n c # cs) =
     (list_all (\<lambda>name. name \<in> set seen) disk_uniform_names
      \<and> disk_uniforms_set_before_draw seen cs)"
| "disk_uniforms_set_before_draw seen (c # cs) = disk_uniforms_set_before_draw seen cs"

section \<open>The fragment shaders\<close>

text \<open>
  The GLSL built-in functions the two fragment shaders call, on reals.
  \<^verbatim>\<open>atan(y, x)\<close> is the angle of the point \<open>(x, y)\<close> in \<open>(-pi, pi]\<close>; GLSL leaves
  it undefined at the origin, where this definition gives 0. \<^verbatim>\<open>pow\<close> is
  \<^term>\<open>(powr)\<close>, which GLSL defines for a base that is not negative.
  \<^verbatim>\<open>texture(texture0, uv)\<close> is the application of the sampler, a function of the
  coordinate.
\<close>

definition glsl_length :: "Vector2 \<Rightarrow> real" where
  "glsl_length v = sqrt (v2_x v * v2_x v + v2_y v * v2_y v)"

definition glsl_normalize :: "Vector2 \<Rightarrow> Vector2" where
  "glsl_normalize v = \<lparr>v2_x = v2_x v / glsl_length v, v2_y = v2_y v / glsl_length v\<rparr>"

definition glsl_dot :: "Vector2 \<Rightarrow> Vector2 \<Rightarrow> real" where
  "glsl_dot a b = v2_x a * v2_x b + v2_y a * v2_y b"

definition glsl_fract :: "real \<Rightarrow> real" where
  "glsl_fract v = v - of_int \<lfloor>v\<rfloor>"

definition glsl_atan :: "real \<Rightarrow> real \<Rightarrow> real" where
  "glsl_atan y x =
     (if 0 < x then arctan (y / x)
      else if x < 0 then (if 0 \<le> y then arctan (y / x) + pi else arctan (y / x) - pi)
      else if 0 < y then pi / 2
      else if y < 0 then - (pi / 2)
      else 0)"

definition glsl_pow :: "real \<Rightarrow> real \<Rightarrow> real" where
  "glsl_pow b e = b powr e"

definition glsl_mix :: "Vector3 \<Rightarrow> Vector3 \<Rightarrow> real \<Rightarrow> Vector3" where
  "glsl_mix a b t =
     \<lparr>v3_x = v3_x a * (1 - t) + v3_x b * t,
      v3_y = v3_y a * (1 - t) + v3_y b * t,
      v3_z = v3_z a * (1 - t) + v3_z b * t\<rparr>"

definition vec2_add :: "Vector2 \<Rightarrow> Vector2 \<Rightarrow> Vector2" where
  "vec2_add a b = \<lparr>v2_x = v2_x a + v2_x b, v2_y = v2_y a + v2_y b\<rparr>"

definition vec2_sub :: "Vector2 \<Rightarrow> Vector2 \<Rightarrow> Vector2" where
  "vec2_sub a b = \<lparr>v2_x = v2_x a - v2_x b, v2_y = v2_y a - v2_y b\<rparr>"

definition vec2_mul :: "Vector2 \<Rightarrow> Vector2 \<Rightarrow> Vector2" where
  "vec2_mul a b = \<lparr>v2_x = v2_x a * v2_x b, v2_y = v2_y a * v2_y b\<rparr>"

definition vec2_div :: "Vector2 \<Rightarrow> Vector2 \<Rightarrow> Vector2" where
  "vec2_div a b = \<lparr>v2_x = v2_x a / v2_x b, v2_y = v2_y a / v2_y b\<rparr>"

definition vec2_scale :: "Vector2 \<Rightarrow> real \<Rightarrow> Vector2" where
  "vec2_scale a k = \<lparr>v2_x = v2_x a * k, v2_y = v2_y a * k\<rparr>"

definition vec3_scale :: "Vector3 \<Rightarrow> real \<Rightarrow> Vector3" where
  "vec3_scale a k = \<lparr>v3_x = v3_x a * k, v3_y = v3_y a * k, v3_z = v3_z a * k\<rparr>"

definition opaque_black :: Vector4 where
  "opaque_black = \<lparr>v4_x = 0, v4_y = 0, v4_z = 0, v4_w = 1\<rparr>"

subsection \<open>lensFragmentShader\<close>

record LensUniforms =
  texture0 :: "Vector2 \<Rightarrow> Vector4"
  lensCenter :: Vector2
  lensStrength :: real
  screenSize :: Vector2

text \<open>The result is \<^verbatim>\<open>finalColor\<close>.\<close>

definition lensFragmentShader :: "LensUniforms \<Rightarrow> Vector2 \<Rightarrow> Vector4" where
  "lensFragmentShader u fragTexCoord =
     (let uv = fragTexCoord;
          screenPos = vec2_mul uv (screenSize u);
          delta = vec2_sub screenPos (lensCenter u);
          r = glsl_length delta
      in if r > 0
         then (let deflection = lensStrength u / r;
                   newR = r - deflection
               in if newR > 0
                  then (let newDelta = vec2_scale (glsl_normalize delta) newR;
                            newScreenPos = vec2_add (lensCenter u) newDelta;
                            newUV = vec2_div newScreenPos (screenSize u)
                        in if v2_x newUV \<ge> 0 \<and> v2_x newUV \<le> 1 \<and> v2_y newUV \<ge> 0 \<and> v2_y newUV \<le> 1
                           then texture0 u newUV
                           else opaque_black)
                  else opaque_black)
         else opaque_black)"

subsection \<open>diskFragmentShader\<close>

record DiskUniforms =
  u_time :: real
  u_blackHolePos :: Vector3
  u_innerRadius :: real
  u_outerRadius :: real
  u_hotColor :: Vector3
  u_coolColor :: Vector3

definition noise :: "Vector2 \<Rightarrow> real" where
  "noise p = glsl_fract (sin (glsl_dot p \<lparr>v2_x = 127.1, v2_y = 311.7\<rparr>) * 43758.5453)"

text \<open>
  The result is \<^verbatim>\<open>finalColor\<close>, or \<open>None\<close> when the fragment is discarded
  (\<^verbatim>\<open>discard\<close> ends the shader). \<^verbatim>\<open>pos\<close> is \<^verbatim>\<open>worldPos.xz - blackHolePos.xz\<close>.
\<close>

definition diskFragmentShader :: "DiskUniforms \<Rightarrow> Vector3 \<Rightarrow> Vector4 option" where
  "diskFragmentShader u worldPos =
     (let pos = vec2_sub \<lparr>v2_x = v3_x worldPos, v2_y = v3_z worldPos\<rparr>
                         \<lparr>v2_x = v3_x (u_blackHolePos u), v2_y = v3_z (u_blackHolePos u)\<rparr>;
          r = glsl_length pos;
          angle = glsl_atan (v2_y pos) (v2_x pos)
      in if r < u_innerRadius u \<or> r > u_outerRadius u then None
         else (let temp = 1 - (r - u_innerRadius u) / (u_outerRadius u - u_innerRadius u);
                   temp1 = glsl_pow temp 0.5;
                   rotSpeed = 1 / sqrt r;
                   angle1 = angle + u_time u * rotSpeed;
                   noiseCoord = vec2_add \<lparr>v2_x = angle1 * 3, v2_y = r * 0.1\<rparr>
                                         \<lparr>v2_x = u_time u * 0.1, v2_y = 0\<rparr>;
                   turbulence = noise noiseCoord * 0.5 + noise (vec2_scale noiseCoord 2) * 0.25;
                   dopplerShift = sin angle1 * 0.3;
                   color = glsl_mix (u_coolColor u) (u_hotColor u) (temp1 + turbulence * 0.3);
                   color1 = vec3_scale color (1 + dopplerShift);
                   alpha = temp1 * (0.7 + turbulence * 0.3)
               in Some \<lparr>v4_x = v3_x color1, v4_y = v3_y color1, v4_z = v3_z color1,
                         v4_w = alpha\<rparr>))"

section \<open>Binary32 arithmetic\<close>

text \<open>
  A \<^verbatim>\<open>float\<close> of the program is an IEEE 754 binary32 number: a finite number
  \<open>m * 2 ^ (e - 23)\<close> with an integer \<open>m\<close>, \<open>\<bar>m\<bar> < 2 ^ 24\<close>, and
  \<open>- 126 \<le> e \<le> 127\<close>, or an infinity, or NaN. Every operation of the source on
  \<^verbatim>\<open>float\<close>s gives the exact result rounded once to the nearest such number,
  ties to the even \<open>m\<close> (the default rounding mode; no wider intermediate
  precision and no fused multiply-add), and \<^verbatim>\<open>sqrtf\<close> is correctly rounded.
  Zero has no sign here: the program divides by a distance only, which is a
  square root and never the negative zero.

  \<open>pow2 k\<close> is \<open>2 ^ k\<close> for an integer \<open>k\<close>. \<open>rne\<close> rounds a real to the nearest
  integer, a tie to the even one.
\<close>

definition pow2 :: "int \<Rightarrow> real" where
  "pow2 k = (if 0 \<le> k then 2 ^ nat k else 1 / 2 ^ nat (- k))"

definition rne :: "real \<Rightarrow> int" where
  "rne y =
     (let f = \<lfloor>y\<rfloor>;
          r = y - of_int f
      in if r < 1 / 2 then f
         else if 1 / 2 < r then f + 1
         else if even f then f else f + 1)"

text \<open>
  The exponent of the binade of \<open>x\<close>, held at \<open>- 126\<close> for the subnormal
  numbers; the distance between neighbouring binary32 numbers there; and the
  binary32 number nearest to \<open>x\<close>, were the exponent unbounded above.
\<close>

definition f32_exponent :: "real \<Rightarrow> int" where
  "f32_exponent x = max \<lfloor>log 2 \<bar>x\<bar>\<rfloor> (- 126)"

definition f32_ulp :: "real \<Rightarrow> real" where
  "f32_ulp x = pow2 (f32_exponent x - 23)"

definition f32_nearest :: "real \<Rightarrow> real" where
  "f32_nearest x = (if x = 0 then 0 else of_int (rne (x / f32_ulp x)) * f32_ulp x)"

text \<open>
  The values of a \<^verbatim>\<open>float\<close>, the largest finite one, and the rounding of a real
  result: past the largest finite number the nearest number is an infinity.
\<close>

datatype f32 = Finite real | PInf | NInf | NaN

definition f32_max :: real where
  "f32_max = (2 ^ 24 - 1) * 2 ^ 104"

definition f32_of_real :: "real \<Rightarrow> f32" where
  "f32_of_real x =
     (let v = f32_nearest x
      in if f32_max < v then PInf else if v < - f32_max then NInf else Finite v)"

text \<open>The operations the two functions use, with the special values as IEEE 754 has them.\<close>

fun f32_neg :: "f32 \<Rightarrow> f32" where
  "f32_neg (Finite a) = Finite (- a)"
| "f32_neg PInf = NInf"
| "f32_neg NInf = PInf"
| "f32_neg NaN = NaN"

fun f32_add :: "f32 \<Rightarrow> f32 \<Rightarrow> f32" where
  "f32_add (Finite a) (Finite b) = f32_of_real (a + b)"
| "f32_add (Finite a) PInf = PInf"
| "f32_add (Finite a) NInf = NInf"
| "f32_add PInf (Finite b) = PInf"
| "f32_add PInf PInf = PInf"
| "f32_add PInf NInf = NaN"
| "f32_add NInf (Finite b) = NInf"
| "f32_add NInf NInf = NInf"
| "f32_add NInf PInf = NaN"
| "f32_add NaN b = NaN"
| "f32_add a NaN = NaN"

definition f32_sub :: "f32 \<Rightarrow> f32 \<Rightarrow> f32" where
  "f32_sub a b = f32_add a (f32_neg b)"

fun f32_mul :: "f32 \<Rightarrow> f32 \<Rightarrow> f32" where
  "f32_mul (Finite a) (Finite b) = f32_of_real (a * b)"
| "f32_mul (Finite a) PInf = (if a = 0 then NaN else if 0 < a then PInf else NInf)"
| "f32_mul (Finite a) NInf = (if a = 0 then NaN else if 0 < a then NInf else PInf)"
| "f32_mul PInf (Finite b) = (if b = 0 then NaN else if 0 < b then PInf else NInf)"
| "f32_mul NInf (Finite b) = (if b = 0 then NaN else if 0 < b then NInf else PInf)"
| "f32_mul PInf PInf = PInf"
| "f32_mul PInf NInf = NInf"
| "f32_mul NInf PInf = NInf"
| "f32_mul NInf NInf = PInf"
| "f32_mul NaN b = NaN"
| "f32_mul a NaN = NaN"

fun f32_div :: "f32 \<Rightarrow> f32 \<Rightarrow> f32" where
  "f32_div (Finite a) (Finite b) =
     (if b = 0 then (if a = 0 then NaN else if 0 < a then PInf else NInf)
      else f32_of_real (a / b))"
| "f32_div (Finite a) PInf = Finite 0"
| "f32_div (Finite a) NInf = Finite 0"
| "f32_div PInf (Finite b) = (if 0 \<le> b then PInf else NInf)"
| "f32_div NInf (Finite b) = (if 0 \<le> b then NInf else PInf)"
| "f32_div PInf PInf = NaN"
| "f32_div PInf NInf = NaN"
| "f32_div NInf PInf = NaN"
| "f32_div NInf NInf = NaN"
| "f32_div NaN b = NaN"
| "f32_div a NaN = NaN"

fun f32_sqrt :: "f32 \<Rightarrow> f32" where
  "f32_sqrt (Finite a) = (if a < 0 then NaN else f32_of_real (sqrt a))"
| "f32_sqrt PInf = PInf"
| "f32_sqrt NInf = NaN"
| "f32_sqrt NaN = NaN"

text \<open>\<^verbatim>\<open><=\<close> and \<^verbatim>\<open><\<close>: false whenever an operand is NaN.\<close>

fun f32_le :: "f32 \<Rightarrow> f32 \<Rightarrow> bool" where
  "f32_le (Finite a) (Finite b) = (a \<le> b)"
| "f32_le (Finite a) PInf = True"
| "f32_le (Finite a) NInf = False"
| "f32_le PInf (Finite b) = False"
| "f32_le PInf PInf = True"
| "f32_le PInf NInf = False"
| "f32_le NInf (Finite b) = True"
| "f32_le NInf PInf = True"
| "f32_le NInf NInf = True"
| "f32_le NaN b = False"
| "f32_le a NaN = False"

fun f32_lt :: "f32 \<Rightarrow> f32 \<Rightarrow> bool" where
  "f32_lt (Finite a) (Finite b) = (a < b)"
| "f32_lt (Finite a) PInf = True"
| "f32_lt (Finite a) NInf = False"
| "f32_lt PInf b = False"
| "f32_lt NInf (Finite b) = True"
| "f32_lt NInf PInf = True"
| "f32_lt NInf NInf = False"
| "f32_lt NaN b = False"
| "f32_lt a NaN = False"

text \<open>
  A \<open>Finite a\<close> is a value a \<^verbatim>\<open>float\<close> can hold when \<open>a\<close> is its own rounding and
  within the range.
\<close>

fun f32_valid :: "f32 \<Rightarrow> bool" where
  "f32_valid (Finite a) = (f32_nearest a = a \<and> \<bar>a\<bar> \<le> f32_max)"
| "f32_valid PInf = True"
| "f32_valid NInf = True"
| "f32_valid NaN = True"

fun f32_is_finite :: "f32 \<Rightarrow> bool" where
  "f32_is_finite (Finite a) = True"
| "f32_is_finite PInf = False"
| "f32_is_finite NInf = False"
| "f32_is_finite NaN = False"

section \<open>The physics on binary32\<close>

text \<open>
  The structs with their \<^verbatim>\<open>float\<close> fields as binary32 numbers (field names end
  in \<open>32\<close>), and \<^verbatim>\<open>Vector3Distance\<close>, \<^verbatim>\<open>CalculateTimeDilation\<close> and
  \<^verbatim>\<open>UpdateSimulation\<close> with every operation rounded.
\<close>

record Vector3_f32 =
  v3_x32 :: f32
  v3_y32 :: f32
  v3_z32 :: f32

record BlackHole_f32 =
  bh_position32 :: Vector3_f32
  mass32 :: f32
  schwarzschildRadius32 :: f32
  iscoRadius32 :: f32

record Camera3D_f32 =
  cam_position32 :: Vector3_f32
  cam_target32 :: Vector3_f32
  cam_up32 :: Vector3_f32
  fovy32 :: f32
  projection32 :: int

record Star_f32 =
  star_position32 :: Vector3_f32
  brightness32 :: f32
  star_color32 :: Color

record AccretionDisk_f32 =
  innerRadius32 :: f32
  outerRadius32 :: f32
  rotationSpeed32 :: f32
  temperature32 :: f32
  hotColor32 :: Color
  coolColor32 :: Color

record SimulationState_f32 =
  camera32 :: Camera3D_f32
  blackHole32 :: BlackHole_f32
  disk32 :: AccretionDisk_f32
  stars32 :: "nat \<Rightarrow> Star_f32"
  time32 :: f32
  timeDilation32 :: f32
  showLensing32 :: bool
  showDisk32 :: bool
  showTimeEffects32 :: bool

definition Vector3Distance_f32 :: "Vector3_f32 \<Rightarrow> Vector3_f32 \<Rightarrow> f32" where
  "Vector3Distance_f32 v1 v2 =
     (let dx = f32_sub (v3_x32 v2) (v3_x32 v1);
          dy = f32_sub (v3_y32 v2) (v3_y32 v1);
          dz = f32_sub (v3_z32 v2) (v3_z32 v1)
      in f32_sqrt (f32_add (f32_add (f32_mul dx dx) (f32_mul dy dy)) (f32_mul dz dz)))"

definition CalculateTimeDilation_f32 :: "Vector3_f32 \<Rightarrow> BlackHole_f32 \<Rightarrow> f32" where
  "CalculateTimeDilation_f32 pos bh =
     (let distance = Vector3Distance_f32 pos (bh_position32 bh);
          rs = schwarzschildRadius32 bh
      in if f32_le distance rs then Finite 0
         else (let factor = f32_sub (Finite 1) (f32_div rs distance)
               in if f32_le factor (Finite 0) then Finite 0 else f32_sqrt factor))"

definition UpdateSimulation_f32 :: "f32 \<Rightarrow> SimulationState_f32 \<Rightarrow> SimulationState_f32" where
  "UpdateSimulation_f32 frameTime sim =
     (let deltaTime = frameTime
      in if showTimeEffects32 sim
         then (let sim1 = sim\<lparr>timeDilation32 :=
                              CalculateTimeDilation_f32 (cam_position32 (camera32 sim))
                                (blackHole32 sim)\<rparr>;
                   deltaTime1 = f32_mul deltaTime (timeDilation32 sim1)
               in sim1\<lparr>time32 := f32_add (time32 sim1) deltaTime1\<rparr>)
         else sim\<lparr>time32 := f32_add (time32 sim) deltaTime\<rparr>)"

text \<open>
  The states that successive calls of \<^verbatim>\<open>UpdateSimulation\<close> go through, one call
  for each frame time of the list.
\<close>

fun UpdateSimulation_f32_frames ::
  "SimulationState_f32 \<Rightarrow> f32 list \<Rightarrow> SimulationState_f32 list" where
  "UpdateSimulation_f32_frames sim [] = [sim]"
| "UpdateSimulation_f32_frames sim (dt # dts) =
     sim # UpdateSimulation_f32_frames (UpdateSimulation_f32 dt sim) dts"

text \<open>\<^verbatim>\<open>SimulationState sim = {0}\<close> in \<^verbatim>\<open>main\<close>.\<close>

definition vec3_zero_f32 :: Vector3_f32 where
  "vec3_zero_f32 = \<lparr>v3_x32 = Finite 0, v3_y32 = Finite 0, v3_z32 = Finite 0\<rparr>"

definition sim_zero_f32 :: SimulationState_f32 where
  "sim_zero_f32 =
     \<lparr>camera32 = \<lparr>cam_position32 = vec3_zero_f32, cam_target32 = vec3_zero_f32,
                   cam_up32 = vec3_zero_f32, fovy32 = Finite 0, projection32 = 0\<rparr>,
      blackHole32 = \<lparr>bh_position32 = vec3_zero_f32, mass32 = Finite 0,
                      schwarzschildRadius32 = Finite 0, iscoRadius32 = Finite 0\<rparr>,
      disk32 = \<lparr>innerRadius32 = Finite 0, outerRadius32 = Finite 0, rotationSpeed32 = Finite 0,
                 temperature32 = Finite 0, hotColor32 = color_zero, coolColor32 = color_zero\<rparr>,
      stars32 = (\<lambda>i. \<lparr>star_position32 = vec3_zero_f32, brightness32 = Finite 0,
                          star_color32 = color_zero\<rparr>),
      time32 = Finite 0, timeDilation32 = Finite 0,
      showLensing32 = False, showDisk32 = False, showTimeEffects32 = False\<rparr>"

text \<open>
  What the statements below ask of a state: the numbers \<^verbatim>\<open>UpdateSimulation\<close> reads
  for the time dilation are finite. \<open>f32_nonneg\<close> holds of the finite numbers
  from 0 on and of the positive infinity; \<open>f32_time_ok\<close> of the values of a
  \<^verbatim>\<open>float\<close> other than NaN and the negative infinity.
\<close>

definition vec3_is_finite :: "Vector3_f32 \<Rightarrow> bool" where
  "vec3_is_finite v = (f32_is_finite (v3_x32 v) \<and> f32_is_finite (v3_y32 v) \<and> f32_is_finite (v3_z32 v))"

definition sim_finite :: "SimulationState_f32 \<Rightarrow> bool" where
  "sim_finite sim =
     (vec3_is_finite (cam_position32 (camera32 sim))
      \<and> vec3_is_finite (bh_position32 (blackHole32 sim))
      \<and> f32_is_finite (schwarzschildRadius32 (blackHole32 sim)))"

definition f32_nonneg :: "f32 \<Rightarrow> bool" where
  "f32_nonneg a = f32_le (Finite 0) a"

definition f32_time_ok :: "f32 \<Rightarrow> bool" where
  "f32_time_ok t = (f32_valid t \<and> t \<noteq> NaN \<and> t \<noteq> NInf)"

text \<open>
  The result of \<^verbatim>\<open>CalculateTimeDilation\<close> at a finite distance \<open>d\<close> outside a
  horizon of radius \<open>r\<close>, as a real: three roundings.
\<close>

definition td_value :: "real \<Rightarrow> real \<Rightarrow> real" where
  "td_value r d = f32_nearest (sqrt (f32_nearest (1 - f32_nearest (r / d))))"

section \<open>Time dilation\<close>

lemma Vector3Distance_euclid:
  "Vector3Distance v1 v2 =
     sqrt ((v3_x v1 - v3_x v2)\<^sup>2 + (v3_y v1 - v3_y v2)\<^sup>2 + (v3_z v1 - v3_z v2)\<^sup>2)"
  by (simp add: Vector3Distance_def Let_def power2_eq_square algebra_simps)

text \<open>
  C1. \<^verbatim>\<open>CalculateTimeDilation\<close> takes the Euclidean distance \<open>d\<close> from the
  observer to the centre of the black hole and returns 0 when
  \<open>d \<le> schwarzschildRadius\<close>; otherwise, with \<open>factor = 1 - schwarzschildRadius / d\<close>,
  it returns 0 when \<open>factor \<le> 0\<close> and \<open>sqrt factor\<close> when not.
\<close>

theorem CalculateTimeDilation_cases:
  "CalculateTimeDilation pos bh =
     (let d = sqrt ((v3_x pos - v3_x (bh_position bh))\<^sup>2
                  + (v3_y pos - v3_y (bh_position bh))\<^sup>2
                  + (v3_z pos - v3_z (bh_position bh))\<^sup>2)
      in if d \<le> schwarzschildRadius bh then 0
         else if 1 - schwarzschildRadius bh / d \<le> 0 then 0
         else sqrt (1 - schwarzschildRadius bh / d))"
  unfolding CalculateTimeDilation_def Vector3Distance_euclid Let_def by simp

section \<open>UpdateSimulation\<close>

text \<open>
  C9. \<^verbatim>\<open>UpdateSimulation\<close> neither reads nor writes \<^verbatim>\<open>showLensing\<close>: setting the
  toggle to any value before the call gives the state that setting it after the
  call gives, so the \<^verbatim>\<open>time\<close> and \<^verbatim>\<open>timeDilation\<close> it produces are the same for
  both values of the toggle.
\<close>

theorem UpdateSimulation_showLensing_independent:
  "UpdateSimulation dt (sim\<lparr>showLensing := b\<rparr>) = (UpdateSimulation dt sim)\<lparr>showLensing := b\<rparr>
   \<and> time (UpdateSimulation dt (sim\<lparr>showLensing := b\<rparr>)) = time (UpdateSimulation dt sim)
   \<and> timeDilation (UpdateSimulation dt (sim\<lparr>showLensing := b\<rparr>))
       = timeDilation (UpdateSimulation dt sim)"
  by (simp add: UpdateSimulation_def Let_def)

text \<open>
  C10. \<^verbatim>\<open>UpdateSimulation\<close> changes no field but \<^verbatim>\<open>time\<close> and \<^verbatim>\<open>timeDilation\<close>:
  the camera, the black hole, the disk, the stars and the three toggles are
  those of the state before, and the state after is the state before with
  these two fields replaced. With \<^verbatim>\<open>showTimeEffects\<close> off, \<^verbatim>\<open>timeDilation\<close> keeps
  its value too.
\<close>

theorem UpdateSimulation_frame:
  "camera (UpdateSimulation dt sim) = camera sim
   \<and> blackHole (UpdateSimulation dt sim) = blackHole sim
   \<and> disk (UpdateSimulation dt sim) = disk sim
   \<and> stars (UpdateSimulation dt sim) = stars sim
   \<and> showLensing (UpdateSimulation dt sim) = showLensing sim
   \<and> showDisk (UpdateSimulation dt sim) = showDisk sim
   \<and> showTimeEffects (UpdateSimulation dt sim) = showTimeEffects sim
   \<and> UpdateSimulation dt sim =
       sim\<lparr>time := time (UpdateSimulation dt sim),
           timeDilation := timeDilation (UpdateSimulation dt sim)\<rparr>
   \<and> timeDilation (UpdateSimulation dt (sim\<lparr>showTimeEffects := False\<rparr>)) = timeDilation sim"
  by (simp add: UpdateSimulation_def Let_def)

section \<open>The starfield\<close>

lemma DrawStarfield_from_eq:
  "DrawStarfield_from sim i =
     map (\<lambda>j. DrawCube (star_position (stars sim j)) 0.2 0.2 0.2 (star_color (stars sim j)))
       (filter (\<lambda>j. \<not> Vector3Distance (star_position (stars sim j)) (bh_position (blackHole sim))
                        \<le> 2 * schwarzschildRadius (blackHole sim))
          [i..<MAX_STARS])"
proof (induction sim i rule: DrawStarfield_from.induct)
  case (1 sim i)
  show ?case
  proof (cases "i < MAX_STARS")
    case True
    then have upt: "[i..<MAX_STARS] = i # [Suc i..<MAX_STARS]"
      by (simp add: upt_conv_Cons)
    show ?thesis
      using "1.IH"[OF True refl refl] True
      by (subst DrawStarfield_from.simps) (simp add: upt Let_def not_le mult.commute)
  next
    case False
    then show ?thesis
      by (subst DrawStarfield_from.simps) simp
  qed
qed

lemma InitSimulation_stars_blackHole [simp]:
  "blackHole (InitSimulation_stars rnd sim i) = blackHole sim"
proof (induction rnd sim i rule: InitSimulation_stars.induct)
  case (1 rnd sim i)
  show ?case
  proof (cases "i < MAX_STARS")
    case True
    then show ?thesis
      using "1.IH"[OF True refl refl refl refl]
      by (subst InitSimulation_stars.simps) (simp add: Let_def)
  next
    case False
    then show ?thesis
      by (subst InitSimulation_stars.simps) simp
  qed
qed

lemma InitSimulation_blackHole:
  "blackHole (InitSimulation rnd sim) =
     (blackHole sim)\<lparr>bh_position := \<lparr>v3_x = 0, v3_y = 0, v3_z = 0\<rparr>, mass := 1,
                      schwarzschildRadius := 2, iscoRadius := 6\<rparr>"
  by (simp add: InitSimulation_def Let_def)

text \<open>
  C8. In the state \<^verbatim>\<open>InitSimulation\<close> leaves, where twice the
  \<open>schwarzschildRadius\<close> is 4 and the black hole is at the origin,
  \<^verbatim>\<open>DrawStarfield\<close> goes through the stars in the order of the array, skips a star
  exactly when its distance to the centre of the black hole is at most 4, and
  draws every other star as a cube of side 0.2 at the star's stored position in
  the star's stored colour.
\<close>

theorem DrawStarfield_initialised:
  "(let sim = InitSimulation rnd sim0
    in 2 * schwarzschildRadius (blackHole sim) = 4
     \<and> bh_position (blackHole sim) = \<lparr>v3_x = 0, v3_y = 0, v3_z = 0\<rparr>
     \<and> DrawStarfield sim =
         map (\<lambda>i. DrawCube (star_position (stars sim i)) 0.2 0.2 0.2 (star_color (stars sim i)))
           (filter (\<lambda>i. \<not> Vector3Distance (star_position (stars sim i))
                              (bh_position (blackHole sim)) \<le> 4)
             [0..<MAX_STARS]))"
  unfolding Let_def DrawStarfield_def DrawStarfield_from_eq
  by (simp add: InitSimulation_blackHole)

section \<open>The uniforms of the disk shader\<close>

lemma disk_uniforms_cubes:
  "disk_uniforms_set_before_draw seen (map (\<lambda>j. DrawCube (p j) a b c (col j)) js @ cs)
   = disk_uniforms_set_before_draw seen cs"
  by (induction js) simp_all

lemma disk_uniforms_DrawStarfield:
  "disk_uniforms_set_before_draw seen (DrawStarfield sim @ cs)
   = disk_uniforms_set_before_draw seen cs"
  unfolding DrawStarfield_def DrawStarfield_from_eq by (rule disk_uniforms_cubes)

text \<open>
  With \<^verbatim>\<open>showLensing\<close> off, a frame that draws the disk sets all six uniforms of
  the disk shader before \<^verbatim>\<open>DrawAccretionDisk\<close>.
\<close>

lemma main_draw_direct_disk_uniforms_set:
  "disk_uniforms_set_before_draw [] (main_draw (sim\<lparr>showLensing := False, showDisk := True\<rparr>))"
  by (simp add: main_draw_def Let_def disk_uniforms_DrawStarfield DrawAccretionDisk_def
      DrawBlackHole_def disk_uniform_names_def)

lemma main_draw_lensed_disk_uniforms:
  "\<not> disk_uniforms_set_before_draw [] (main_draw (sim\<lparr>showLensing := True, showDisk := True\<rparr>))"
  by (simp add: main_draw_def Let_def disk_uniforms_DrawStarfield DrawAccretionDisk_def
      DrawBlackHole_def disk_uniform_names_def)

text \<open>
  C4. The claim is that every frame that draws the disk sets the six uniforms of
  the disk shader before the draw, on the lensed path as on the direct one. The
  code does not: with \<^verbatim>\<open>showLensing\<close> and \<^verbatim>\<open>showDisk\<close> on, the frame draws the disk
  without setting them, and the first frame after \<^verbatim>\<open>InitSimulation\<close> is such a
  frame.
\<close>

theorem main_draw_lensed_disk_uniforms_unset:
  "\<not> disk_uniforms_set_before_draw [] (main_draw (sim\<lparr>showLensing := True, showDisk := True\<rparr>))
   \<and> \<not> disk_uniforms_set_before_draw []
         (main_draw (UpdateSimulation dt (InitSimulation rnd sim0)))"
proof -
  let ?s = "UpdateSimulation dt (InitSimulation rnd sim0)"
  have "showLensing ?s" "showDisk ?s"
    by (simp_all add: UpdateSimulation_def InitSimulation_def Let_def)
  then have "?s = ?s\<lparr>showLensing := True, showDisk := True\<rparr>" by simp
  then show ?thesis
    using main_draw_lensed_disk_uniforms[of ?s] main_draw_lensed_disk_uniforms[of sim] by simp
qed

section \<open>The lens shader\<close>

lemma glsl_length_eq: "glsl_length v = sqrt ((v2_x v)\<^sup>2 + (v2_y v)\<^sup>2)"
  by (simp add: glsl_length_def power2_eq_square)

lemma glsl_length_nonneg: "0 \<le> glsl_length v"
  by (simp add: glsl_length_def)

text \<open>
  C6. For the pixel at \<open>uv * screenSize\<close>, with \<open>r\<close> its distance from
  \<^verbatim>\<open>lensCenter\<close> and \<open>newR = r - lensStrength / r\<close>: \<^verbatim>\<open>lensFragmentShader\<close> gives
  opaque black when \<open>r = 0\<close>, opaque black when \<open>newR \<le> 0\<close>, opaque black when
  the coordinate at radius \<open>newR\<close> in the same direction, divided by
  \<^verbatim>\<open>screenSize\<close>, is outside the unit square, and otherwise the colour the
  texture has at that coordinate.
\<close>

theorem lensFragmentShader_cases:
  "lensFragmentShader u uv =
     (let dx = v2_x uv * v2_x (screenSize u) - v2_x (lensCenter u);
          dy = v2_y uv * v2_y (screenSize u) - v2_y (lensCenter u);
          r = sqrt (dx\<^sup>2 + dy\<^sup>2);
          newR = r - lensStrength u / r;
          newUV = \<lparr>v2_x = (v2_x (lensCenter u) + dx / r * newR) / v2_x (screenSize u),
                   v2_y = (v2_y (lensCenter u) + dy / r * newR) / v2_y (screenSize u)\<rparr>
      in if r = 0 then opaque_black
         else if newR \<le> 0 then opaque_black
         else if v2_x newUV < 0 \<or> 1 < v2_x newUV \<or> v2_y newUV < 0 \<or> 1 < v2_y newUV
              then opaque_black
         else texture0 u newUV)"
proof -
  let ?delta = "vec2_sub (vec2_mul uv (screenSize u)) (lensCenter u)"
  have nn: "0 \<le> glsl_length ?delta" by (rule glsl_length_nonneg)
  have pos: "glsl_length ?delta > 0 \<longleftrightarrow> glsl_length ?delta \<noteq> 0"
    using nn by linarith
  show ?thesis
    unfolding lensFragmentShader_def Let_def pos
    unfolding glsl_length_eq glsl_normalize_def vec2_sub_def vec2_mul_def vec2_add_def
      vec2_div_def vec2_scale_def
    by (auto simp: not_le not_less)
qed

section \<open>The disk shader\<close>

lemma sqrt_36: "sqrt 36 = 6"
  by (rule real_sqrt_unique) simp_all

lemma sqrt_100: "sqrt 100 = 10"
  by (rule real_sqrt_unique) simp_all

lemma sqrt_400: "sqrt 400 = 20"
  by (rule real_sqrt_unique) simp_all

text \<open>
  C3, as the code has it. With \<open>r\<close> the distance of \<^verbatim>\<open>worldPos.xz\<close> from
  \<^verbatim>\<open>blackHolePos.xz\<close>, \<^verbatim>\<open>diskFragmentShader\<close> discards the fragment exactly when
  \<open>r < innerRadius\<close> or \<open>r > outerRadius\<close>: a fragment with \<open>r\<close> strictly between
  the bounds or exactly at one of them is kept, one outside them is discarded.
\<close>

theorem diskFragmentShader_discard_iff:
  "diskFragmentShader u worldPos = None \<longleftrightarrow>
     (let r = sqrt ((v3_x worldPos - v3_x (u_blackHolePos u))\<^sup>2
                  + (v3_z worldPos - v3_z (u_blackHolePos u))\<^sup>2)
      in r < u_innerRadius u \<or> u_outerRadius u < r)"
  by (simp add: diskFragmentShader_def Let_def glsl_length_eq vec2_sub_def)

text \<open>
  C3, as the claim has it, fails: with the bounds 6 and 20 and the black hole at
  the origin, the fragments at \<open>(6, 0, 0)\<close> and \<open>(20, 0, 0)\<close> have their radius
  exactly at a bound, and neither is discarded.
\<close>

theorem diskFragmentShader_keeps_boundary:
  "(let u = \<lparr>u_time = 0, u_blackHolePos = \<lparr>v3_x = 0, v3_y = 0, v3_z = 0\<rparr>,
             u_innerRadius = 6, u_outerRadius = 20,
             u_hotColor = \<lparr>v3_x = 1.0, v3_y = 0.8, v3_z = 0.2\<rparr>,
             u_coolColor = \<lparr>v3_x = 0.8, v3_y = 0.2, v3_z = 0.1\<rparr>\<rparr>;
        atInner = \<lparr>v3_x = 6, v3_y = 0, v3_z = 0\<rparr>;
        atOuter = \<lparr>v3_x = 20, v3_y = 0, v3_z = 0\<rparr>
    in sqrt ((v3_x atInner - v3_x (u_blackHolePos u))\<^sup>2
             + (v3_z atInner - v3_z (u_blackHolePos u))\<^sup>2) = u_innerRadius u
     \<and> diskFragmentShader u atInner \<noteq> None
     \<and> sqrt ((v3_x atOuter - v3_x (u_blackHolePos u))\<^sup>2
             + (v3_z atOuter - v3_z (u_blackHolePos u))\<^sup>2) = u_outerRadius u
     \<and> diskFragmentShader u atOuter \<noteq> None)"
  by (simp add: Let_def diskFragmentShader_def glsl_length_def vec2_sub_def sqrt_36 sqrt_400)

text \<open>
  C7. With \<open>innerRadius < outerRadius\<close>, a fragment that is not discarded, at
  planar radius \<open>r\<close> and at the angle \<open>\<theta>\<close> that is the angle of its planar
  position advanced by \<open>time * (1 / sqrt r)\<close>, has
  \<open>temperature = ((outerRadius - r) / (outerRadius - innerRadius)) powr 0.5\<close>; its
  colour is, in each channel, the blend of \<^verbatim>\<open>hotColor\<close> and \<^verbatim>\<open>coolColor\<close> with the
  weight \<open>temperature + 0.3 * turbulence\<close> on \<^verbatim>\<open>hotColor\<close>, times
  \<open>1 + 0.3 * sin \<theta>\<close>; and its alpha is \<open>temperature * (0.7 + 0.3 * turbulence)\<close>.
  The turbulence is the noise at the coordinate \<open>(3 * \<theta> + 0.1 * time, 0.1 * r)\<close>
  with weight 0.5 plus the noise at twice that coordinate with weight 0.25.
\<close>

theorem diskFragmentShader_color:
  assumes "u_innerRadius u < u_outerRadius u"
    and "diskFragmentShader u worldPos \<noteq> None"
  shows "diskFragmentShader u worldPos =
     (let px = v3_x worldPos - v3_x (u_blackHolePos u);
          pz = v3_z worldPos - v3_z (u_blackHolePos u);
          r = sqrt (px\<^sup>2 + pz\<^sup>2);
          \<theta> = glsl_atan pz px + u_time u * (1 / sqrt r);
          temperature = ((u_outerRadius u - r) / (u_outerRadius u - u_innerRadius u)) powr 0.5;
          nc = \<lparr>v2_x = \<theta> * 3 + u_time u * 0.1, v2_y = r * 0.1\<rparr>;
          turbulence = 0.5 * noise nc + 0.25 * noise \<lparr>v2_x = 2 * v2_x nc, v2_y = 2 * v2_y nc\<rparr>;
          w = temperature + 0.3 * turbulence;
          k = 1 + 0.3 * sin \<theta>
      in Some \<lparr>v4_x = k * (v3_x (u_hotColor u) * w + v3_x (u_coolColor u) * (1 - w)),
               v4_y = k * (v3_y (u_hotColor u) * w + v3_y (u_coolColor u) * (1 - w)),
               v4_z = k * (v3_z (u_hotColor u) * w + v3_z (u_coolColor u) * (1 - w)),
               v4_w = temperature * (0.7 + 0.3 * turbulence)\<rparr>)"
proof -
  let ?r = "sqrt ((v3_x worldPos - v3_x (u_blackHolePos u))\<^sup>2
                 + (v3_z worldPos - v3_z (u_blackHolePos u))\<^sup>2)"
  have ne: "u_outerRadius u - u_innerRadius u \<noteq> 0" using assms(1) by simp
  have temp: "1 - (?r - u_innerRadius u) / (u_outerRadius u - u_innerRadius u)
              = (u_outerRadius u - ?r) / (u_outerRadius u - u_innerRadius u)"
    using ne by (simp add: field_simps)
  show ?thesis
    using assms(2)
    unfolding diskFragmentShader_def Let_def glsl_length_eq vec2_sub_def vec2_add_def
      vec2_scale_def glsl_mix_def vec3_scale_def glsl_pow_def
    by (simp add: temp algebra_simps split: if_splits)
qed

text \<open>
  The uniforms the direct path sets for the initial disk, at time 0, and the
  fragment at \<open>(10, 0, 0)\<close>: radius 10, angle 0.
\<close>

theorem diskFragmentShader_color_witness:
  "(let u = \<lparr>u_time = 0, u_blackHolePos = \<lparr>v3_x = 0, v3_y = 0, v3_z = 0\<rparr>,
             u_innerRadius = 6, u_outerRadius = 20,
             u_hotColor = \<lparr>v3_x = 1.0, v3_y = 0.8, v3_z = 0.2\<rparr>,
             u_coolColor = \<lparr>v3_x = 0.8, v3_y = 0.2, v3_z = 0.1\<rparr>\<rparr>;
        worldPos = \<lparr>v3_x = 10, v3_y = 0, v3_z = 0\<rparr>
    in u_innerRadius u < u_outerRadius u
     \<and> diskFragmentShader u worldPos \<noteq> None
     \<and> diskFragmentShader u worldPos =
         (let r = 10;
              temperature = ((20 - r) / (20 - 6)) powr 0.5;
              nc = \<lparr>v2_x = 0, v2_y = 1\<rparr>;
              turbulence = 0.5 * noise nc + 0.25 * noise \<lparr>v2_x = 0, v2_y = 2\<rparr>;
              w = temperature + 0.3 * turbulence
          in Some \<lparr>v4_x = 1.0 * w + 0.8 * (1 - w),
                   v4_y = 0.8 * w + 0.2 * (1 - w),
                   v4_z = 0.2 * w + 0.1 * (1 - w),
                   v4_w = temperature * (0.7 + 0.3 * turbulence)\<rparr>))"
proof -
  let ?u = "\<lparr>u_time = 0, u_blackHolePos = \<lparr>v3_x = 0, v3_y = 0, v3_z = 0\<rparr>,
             u_innerRadius = 6, u_outerRadius = 20,
             u_hotColor = \<lparr>v3_x = 1.0, v3_y = 0.8, v3_z = 0.2\<rparr>,
             u_coolColor = \<lparr>v3_x = 0.8, v3_y = 0.2, v3_z = 0.1\<rparr>\<rparr>"
  let ?w = "\<lparr>v3_x = 10, v3_y = 0, v3_z = 0\<rparr>"
  have kept: "diskFragmentShader ?u ?w \<noteq> None"
    by (simp add: Let_def diskFragmentShader_def glsl_length_def vec2_sub_def sqrt_100)
  have lt: "u_innerRadius ?u < u_outerRadius ?u" by simp
  show ?thesis
    using diskFragmentShader_color[OF lt kept] kept
    by (simp add: Let_def sqrt_100 glsl_atan_def)
qed

section \<open>Rounding to binary32\<close>

lemma pow2_powr: "pow2 k = 2 powr (of_int k)"
proof (cases "0 \<le> k")
  case True
  then have "2 powr (of_int k) = (2::real) powr (real (nat k))" by simp
  also have "\<dots> = 2 ^ nat k" by (rule powr_realpow) simp
  finally show ?thesis using True by (simp add: pow2_def)
next
  case False
  then have "(2::real) powr (of_int k) = 2 powr (- real (nat (- k)))" by simp
  also have "\<dots> = 1 / 2 powr (real (nat (- k)))" by (simp add: powr_minus divide_inverse)
  also have "\<dots> = 1 / 2 ^ nat (- k)" by (simp add: powr_realpow)
  finally show ?thesis using False by (simp add: pow2_def)
qed

lemma pow2_pos [simp]: "0 < pow2 k"
  by (simp add: pow2_powr)

lemma pow2_add: "pow2 (a + b) = pow2 a * pow2 b"
  by (simp add: pow2_powr powr_add)

lemma pow2_mono: "a \<le> b \<Longrightarrow> pow2 a \<le> pow2 b"
  by (simp add: pow2_powr)

lemma pow2_less: "a < b \<Longrightarrow> pow2 a < pow2 b"
  by (simp add: pow2_powr)

lemma rne_cases: "rne y = \<lfloor>y\<rfloor> \<or> rne y = \<lfloor>y\<rfloor> + 1"
  by (simp add: rne_def Let_def)

lemma rne_lower: "real_of_int (rne y) \<ge> y - 1 / 2"
  unfolding rne_def Let_def by (auto; linarith)

lemma rne_upper: "real_of_int (rne y) \<le> y + 1 / 2"
  unfolding rne_def Let_def by (auto; linarith)

lemma rne_of_int [simp]: "rne (of_int n) = n"
  by (simp add: rne_def Let_def)

lemma rne_near: "\<bar>y - of_int n\<bar> < 1 / 2 \<Longrightarrow> rne y = n"
proof -
  assume a: "\<bar>y - of_int n\<bar> < 1 / 2"
  have l: "real_of_int (rne y) \<ge> y - 1 / 2" by (rule rne_lower)
  have u: "real_of_int (rne y) \<le> y + 1 / 2" by (rule rne_upper)
  from a l u have "\<bar>real_of_int (rne y) - real_of_int n\<bar> < 1" by linarith
  then have "\<bar>real_of_int (rne y - n)\<bar> < 1" by simp
  then have "\<bar>rne y - n\<bar> < 1" by linarith
  then show ?thesis by simp
qed

lemma rne_mono: "x \<le> y \<Longrightarrow> rne x \<le> rne y"
proof -
  assume xy: "x \<le> y"
  have fl: "\<lfloor>x\<rfloor> \<le> \<lfloor>y\<rfloor>" using xy by (rule floor_mono)
  show ?thesis
  proof (cases "\<lfloor>x\<rfloor> = \<lfloor>y\<rfloor>")
    case True
    then show ?thesis using xy unfolding rne_def Let_def by (auto; linarith)
  next
    case False
    then have "\<lfloor>x\<rfloor> + 1 \<le> \<lfloor>y\<rfloor>" using fl by linarith
    moreover have "rne x \<le> \<lfloor>x\<rfloor> + 1" using rne_cases[of x] by linarith
    moreover have "\<lfloor>y\<rfloor> \<le> rne y" using rne_cases[of y] by linarith
    ultimately show ?thesis by linarith
  qed
qed

lemma rne_minus: "rne (- y) = - rne y"
proof (cases "y = of_int \<lfloor>y\<rfloor>")
  case True
  then obtain n where "y = of_int n" by blast
  then show ?thesis by (simp flip: of_int_minus)
next
  case False
  have le: "of_int \<lfloor>y\<rfloor> \<le> y" by (rule of_int_floor_le)
  have fr: "of_int \<lfloor>y\<rfloor> < y" using False le by linarith
  have up: "y < of_int \<lfloor>y\<rfloor> + 1" by linarith
  have fl: "\<lfloor>- y\<rfloor> = - \<lfloor>y\<rfloor> - 1"
    by (rule floor_unique) (use fr up in \<open>simp; linarith\<close>)+
  show ?thesis
    unfolding rne_def Let_def fl using fr up by (auto; linarith?)
qed

lemma rne_zero [simp]: "rne 0 = 0"
  using rne_of_int[of 0] by simp

lemma pow2_abs [simp]: "\<bar>pow2 k\<bar> = pow2 k"
  by (simp add: abs_of_pos)

lemma pow2_split: "pow2 a * pow2 (b - a) = pow2 b"
  using pow2_add[of a "b - a"] by simp

subsection \<open>The exponent\<close>

lemma f32_exponent_eq:
  assumes "pow2 e \<le> \<bar>x\<bar>" and "\<bar>x\<bar> < pow2 (e + 1)" and "- 126 \<le> e"
  shows "f32_exponent x = e"
proof -
  have pos: "0 < \<bar>x\<bar>" using assms(1) pow2_pos[of e] by linarith
  have "\<lfloor>log 2 \<bar>x\<bar>\<rfloor> = e"
    using assms(1,2) pos by (simp add: floor_log_eq_powr_iff pow2_powr)
  then show ?thesis using assms(3) by (simp add: f32_exponent_def)
qed

lemma f32_exponent_subnormal:
  assumes "x \<noteq> 0" and "\<bar>x\<bar> < pow2 (- 126)"
  shows "f32_exponent x = - 126"
proof -
  have pos: "0 < \<bar>x\<bar>" using assms(1) by simp
  have "log 2 \<bar>x\<bar> < - 126"
    using assms(2) pos by (simp add: log_less_iff pow2_powr)
  then have "\<lfloor>log 2 \<bar>x\<bar>\<rfloor> < - 126" by linarith
  then show ?thesis by (simp add: f32_exponent_def)
qed

lemma f32_exponent_ge: "- 126 \<le> f32_exponent x"
  by (simp add: f32_exponent_def)

lemma f32_exponent_upper:
  assumes "x \<noteq> 0"
  shows "\<bar>x\<bar> < pow2 (f32_exponent x + 1)"
proof -
  have pos: "0 < \<bar>x\<bar>" using assms by simp
  let ?k = "\<lfloor>log 2 \<bar>x\<bar>\<rfloor>"
  have "\<bar>x\<bar> < 2 powr (of_int (?k + 1))"
    using floor_log_eq_powr_iff[of "\<bar>x\<bar>" 2 ?k] pos by simp
  then have "\<bar>x\<bar> < pow2 (?k + 1)" by (simp add: pow2_powr)
  moreover have "pow2 (?k + 1) \<le> pow2 (f32_exponent x + 1)"
    by (rule pow2_mono) (simp add: f32_exponent_def)
  ultimately show ?thesis by linarith
qed

lemma f32_exponent_lower:
  assumes "pow2 (- 126) \<le> \<bar>x\<bar>"
  shows "pow2 (f32_exponent x) \<le> \<bar>x\<bar>"
proof -
  have pos: "0 < \<bar>x\<bar>" using assms pow2_pos[of "- 126"] by linarith
  let ?k = "\<lfloor>log 2 \<bar>x\<bar>\<rfloor>"
  have "- 126 \<le> log 2 \<bar>x\<bar>"
    using assms pos by (simp add: le_log_iff pow2_powr)
  then have "- 126 \<le> ?k" by linarith
  then have e: "f32_exponent x = ?k" by (simp add: f32_exponent_def)
  have "2 powr (of_int ?k) \<le> \<bar>x\<bar>"
    using floor_log_eq_powr_iff[of "\<bar>x\<bar>" 2 ?k] pos by simp
  then show ?thesis by (simp add: e pow2_powr)
qed

lemma f32_exponent_mono:
  assumes "x \<noteq> 0" and "\<bar>x\<bar> \<le> \<bar>y\<bar>"
  shows "f32_exponent x \<le> f32_exponent y"
proof -
  have "0 < \<bar>x\<bar>" using assms(1) by simp
  then have "log 2 \<bar>x\<bar> \<le> log 2 \<bar>y\<bar>" using assms(2) by simp
  then have "\<lfloor>log 2 \<bar>x\<bar>\<rfloor> \<le> \<lfloor>log 2 \<bar>y\<bar>\<rfloor>" by (rule floor_mono)
  then show ?thesis by (simp add: f32_exponent_def)
qed

lemma f32_exponent_minus [simp]: "f32_exponent (- x) = f32_exponent x"
  by (simp add: f32_exponent_def)

lemma f32_ulp_minus [simp]: "f32_ulp (- x) = f32_ulp x"
  by (simp add: f32_ulp_def)

lemma f32_ulp_pos [simp]: "0 < f32_ulp x"
  by (simp add: f32_ulp_def)

lemma f32_exponent_gt_imp:
  assumes "- 126 < f32_exponent x" and "x \<noteq> 0"
  shows "pow2 (- 126) \<le> \<bar>x\<bar>"
proof -
  have k: "- 126 < \<lfloor>log 2 \<bar>x\<bar>\<rfloor>"
    using assms(1) by (simp add: f32_exponent_def max_def split: if_splits)
  have pos: "0 < \<bar>x\<bar>" using assms(2) by simp
  have "- 126 \<le> log 2 \<bar>x\<bar>" using k by linarith
  then show ?thesis using pos by (simp add: le_log_iff pow2_powr)
qed

lemma f32_exponent_in_binade:
  assumes "0 < v" and "v < pow2 (e + 1)" and "e = - 126 \<or> pow2 e \<le> v" and "- 126 \<le> e"
  shows "f32_exponent v = e"
proof (cases "pow2 e \<le> v")
  case True
  then show ?thesis using assms by (intro f32_exponent_eq) simp_all
next
  case False
  then have e: "e = - 126" using assms(3) by blast
  then have "\<bar>v\<bar> < pow2 (- 126)" using False assms(1) by simp
  then show ?thesis using assms(1) e by (simp add: f32_exponent_subnormal)
qed

subsection \<open>Rounding is monotone\<close>

lemma f32_nearest_minus: "f32_nearest (- x) = - f32_nearest x"
  by (simp add: f32_nearest_def rne_minus)

lemma f32_nearest_zero [simp]: "f32_nearest 0 = 0"
  by (simp add: f32_nearest_def)

lemma f32_nearest_nonneg:
  assumes "0 \<le> x"
  shows "0 \<le> f32_nearest x"
proof -
  have "0 \<le> x / f32_ulp x" by (rule divide_nonneg_pos[OF assms f32_ulp_pos])
  then have "rne 0 \<le> rne (x / f32_ulp x)" by (rule rne_mono)
  then have "0 \<le> rne (x / f32_ulp x)" using rne_of_int[of 0] by simp
  then have "0 \<le> real_of_int (rne (x / f32_ulp x)) * f32_ulp x"
    using f32_ulp_pos[of x] by (simp add: mult_nonneg_nonneg less_imp_le)
  then show ?thesis by (simp add: f32_nearest_def)
qed

lemma pow2_24_ulp: "pow2 24 * f32_ulp x = pow2 (f32_exponent x + 1)"
proof -
  have "pow2 24 * pow2 (f32_exponent x - 23) = pow2 (24 + (f32_exponent x - 23))"
    by (simp only: pow2_add)
  also have "24 + (f32_exponent x - 23) = f32_exponent x + 1" by simp
  finally show ?thesis by (simp add: f32_ulp_def)
qed

lemma pow2_23_ulp: "pow2 23 * f32_ulp x = pow2 (f32_exponent x)"
proof -
  have "pow2 23 * pow2 (f32_exponent x - 23) = pow2 (23 + (f32_exponent x - 23))"
    by (simp only: pow2_add)
  also have "23 + (f32_exponent x - 23) = f32_exponent x" by simp
  finally show ?thesis by (simp add: f32_ulp_def)
qed

lemma pow2_numeral_23: "pow2 23 = of_int (2 ^ 23)"
  by (simp add: pow2_def)

lemma pow2_numeral_24: "pow2 24 = of_int (2 ^ 24)"
  by (simp add: pow2_def)

lemma f32_nearest_upper:
  assumes "0 < x"
  shows "f32_nearest x \<le> pow2 (f32_exponent x + 1)"
proof -
  have "x < pow2 24 * f32_ulp x"
    using f32_exponent_upper[of x] assms by (simp add: pow2_24_ulp)
  then have "x / f32_ulp x \<le> of_int (2 ^ 24)"
    by (simp add: pow2_numeral_24 pos_divide_le_eq)
  then have "rne (x / f32_ulp x) \<le> rne (of_int (2 ^ 24))" by (rule rne_mono)
  then have "rne (x / f32_ulp x) \<le> 2 ^ 24" by (simp only: rne_of_int)
  then have "real_of_int (rne (x / f32_ulp x)) \<le> pow2 24"
    unfolding pow2_numeral_24 by (simp only: of_int_le_iff)
  then have "real_of_int (rne (x / f32_ulp x)) * f32_ulp x \<le> pow2 24 * f32_ulp x"
    by (simp add: mult_right_mono)
  then show ?thesis using assms by (simp add: f32_nearest_def pow2_24_ulp)
qed

lemma f32_nearest_lower:
  assumes "pow2 (- 126) \<le> x"
  shows "pow2 (f32_exponent x) \<le> f32_nearest x"
proof -
  have pos: "0 < x" using assms pow2_pos[of "- 126"] by linarith
  have "pow2 23 * f32_ulp x \<le> x"
    using f32_exponent_lower[of x] assms pos by (simp add: pow2_23_ulp)
  then have "of_int (2 ^ 23) \<le> x / f32_ulp x"
    by (simp add: pow2_numeral_23 pos_le_divide_eq)
  then have "rne (of_int (2 ^ 23)) \<le> rne (x / f32_ulp x)" by (rule rne_mono)
  then have "2 ^ 23 \<le> rne (x / f32_ulp x)" by (simp only: rne_of_int)
  then have "pow2 23 \<le> real_of_int (rne (x / f32_ulp x))"
    unfolding pow2_numeral_23 by (simp only: of_int_le_iff)
  then have "pow2 23 * f32_ulp x \<le> real_of_int (rne (x / f32_ulp x)) * f32_ulp x"
    by (simp add: mult_right_mono)
  then show ?thesis using pos by (simp add: f32_nearest_def pow2_23_ulp)
qed

lemma f32_nearest_mono_pos:
  assumes "0 < x" and "x \<le> y"
  shows "f32_nearest x \<le> f32_nearest y"
proof -
  have ypos: "0 < y" using assms by linarith
  have ee: "f32_exponent x \<le> f32_exponent y"
    using f32_exponent_mono[of x y] assms by simp
  show ?thesis
  proof (cases "f32_exponent x = f32_exponent y")
    case True
    then have u: "f32_ulp x = f32_ulp y" by (simp add: f32_ulp_def)
    have "x / f32_ulp y \<le> y / f32_ulp y"
      using assms(2) f32_ulp_pos[of y] by (simp add: divide_right_mono less_imp_le)
    then have "rne (x / f32_ulp y) \<le> rne (y / f32_ulp y)" by (rule rne_mono)
    then have "real_of_int (rne (x / f32_ulp y)) * f32_ulp y
               \<le> real_of_int (rne (y / f32_ulp y)) * f32_ulp y"
      by (simp add: mult_right_mono)
    then show ?thesis using assms(1) ypos by (simp add: f32_nearest_def u)
  next
    case False
    then have lt: "f32_exponent x + 1 \<le> f32_exponent y" using ee by linarith
    then have "- 126 < f32_exponent y" using f32_exponent_ge[of x] by linarith
    then have "- 126 \<le> \<lfloor>log 2 \<bar>y\<bar>\<rfloor>" by (simp add: f32_exponent_def max_def split: if_splits)
    then have "- 126 \<le> log 2 y" using ypos by (simp add: le_floor_iff)
    then have "pow2 (- 126) \<le> y" using ypos by (simp add: le_log_iff pow2_powr)
    then have "pow2 (f32_exponent y) \<le> f32_nearest y" by (rule f32_nearest_lower)
    moreover have "f32_nearest x \<le> pow2 (f32_exponent x + 1)"
      using assms(1) by (rule f32_nearest_upper)
    moreover have "pow2 (f32_exponent x + 1) \<le> pow2 (f32_exponent y)"
      using lt by (rule pow2_mono)
    ultimately show ?thesis by linarith
  qed
qed

lemma f32_nearest_mono:
  assumes "x \<le> y"
  shows "f32_nearest x \<le> f32_nearest y"
proof -
  consider "0 < x" | "x = 0" | "x < 0" "0 \<le> y" | "x < 0" "y < 0" by linarith
  then show ?thesis
  proof cases
    case 1
    then show ?thesis using assms by (rule f32_nearest_mono_pos)
  next
    case 2
    then show ?thesis using assms f32_nearest_nonneg[of y] by simp
  next
    case 3
    have "0 \<le> f32_nearest (- x)" using 3(1) by (simp add: f32_nearest_nonneg)
    then have "f32_nearest x \<le> 0" by (simp add: f32_nearest_minus)
    then show ?thesis using f32_nearest_nonneg[OF 3(2)] by linarith
  next
    case 4
    have "f32_nearest (- y) \<le> f32_nearest (- x)"
      by (rule f32_nearest_mono_pos) (use 4 assms in simp_all)
    then show ?thesis by (simp add: f32_nearest_minus)
  qed
qed

subsection \<open>Rounding is idempotent\<close>

lemma f32_nearest_idem_pos:
  assumes "0 < x"
  shows "f32_nearest (f32_nearest x) = f32_nearest x"
proof -
  let ?e = "f32_exponent x"
  let ?u = "f32_ulp x"
  let ?m = "rne (x / ?u)"
  let ?v = "f32_nearest x"
  have v: "?v = of_int ?m * ?u" using assms by (simp add: f32_nearest_def)
  have vnn: "0 \<le> ?v" using assms by (simp add: f32_nearest_nonneg)
  have vup: "?v \<le> pow2 (?e + 1)" using assms by (rule f32_nearest_upper)
  show ?thesis
  proof (cases "?v = 0")
    case True
    then show ?thesis by simp
  next
    case False
    then have vpos: "0 < ?v" using vnn by linarith
    show ?thesis
    proof (cases "?v = pow2 (?e + 1)")
      case True
      have ex: "f32_exponent ?v = ?e + 1"
        by (rule f32_exponent_eq)
          (use True f32_exponent_ge[of x] pow2_less[of "?e + 1" "?e + 1 + 1"] in simp_all)
      define U where "U = f32_ulp ?v"
      have Upos: "0 < U" by (simp add: U_def)
      have "U = pow2 (?e + 1 - 23)" by (simp add: U_def f32_ulp_def ex)
      then have "pow2 23 * U = pow2 (?e + 1)" by (simp only: pow2_split)
      then have vU: "?v = of_int (2 ^ 23) * U" using True by (simp only: pow2_numeral_23)
      then have "?v / U = of_int (2 ^ 23) * U / U" by simp
      also have "\<dots> = of_int (2 ^ 23)" using Upos by simp
      finally have q: "?v / U = of_int (2 ^ 23)" .
      have "f32_nearest ?v = of_int (rne (?v / U)) * U"
        using False by (simp add: f32_nearest_def U_def)
      also have "\<dots> = of_int (2 ^ 23) * U" by (simp only: q rne_of_int)
      also have "\<dots> = ?v" by (simp only: vU)
      finally show ?thesis .
    next
      case ne: False
      then have lt: "?v < pow2 (?e + 1)" using vup by linarith
      have low: "?e = - 126 \<or> pow2 ?e \<le> ?v"
      proof (cases "?e = - 126")
        case True
        then show ?thesis by simp
      next
        case False
        then have "- 126 < ?e" using f32_exponent_ge[of x] by linarith
        then have "pow2 (- 126) \<le> x" using f32_exponent_gt_imp[of x] assms by simp
        then show ?thesis using f32_nearest_lower[of x] by simp
      qed
      have ex: "f32_exponent ?v = ?e"
        using vpos lt low f32_exponent_ge[of x] by (rule f32_exponent_in_binade)
      have u: "f32_ulp ?v = ?u" by (simp add: f32_ulp_def ex)
      have q: "?v / ?u = of_int ?m" by (simp add: v)
      have "f32_nearest ?v = of_int (rne (?v / f32_ulp ?v)) * f32_ulp ?v"
        using False by (simp add: f32_nearest_def)
      also have "\<dots> = of_int ?m * ?u" by (simp only: u q rne_of_int)
      finally show ?thesis by (simp add: v)
    qed
  qed
qed

lemma f32_nearest_idem [simp]: "f32_nearest (f32_nearest x) = f32_nearest x"
proof -
  consider "0 < x" | "x = 0" | "x < 0" by linarith
  then show ?thesis
  proof cases
    case 1
    then show ?thesis by (rule f32_nearest_idem_pos)
  next
    case 2
    then show ?thesis by simp
  next
    case 3
    then have "f32_nearest (f32_nearest (- x)) = f32_nearest (- x)"
      by (intro f32_nearest_idem_pos) simp
    then show ?thesis by (simp add: f32_nearest_minus)
  qed
qed

subsection \<open>Rounding at a number whose binade is known\<close>

lemma f32_nearest_eval:
  assumes "pow2 e \<le> \<bar>x\<bar>" and "\<bar>x\<bar> < pow2 (e + 1)" and "- 126 \<le> e"
  shows "f32_nearest x = of_int (rne (x / pow2 (e - 23))) * pow2 (e - 23)"
proof -
  have "f32_exponent x = e" using assms by (rule f32_exponent_eq)
  moreover have "0 < \<bar>x\<bar>" using assms(1) pow2_pos[of e] by linarith
  then have "x \<noteq> 0" by auto
  ultimately show ?thesis by (simp add: f32_nearest_def f32_ulp_def)
qed

lemma f32_nearest_exact_int:
  assumes "pow2 e \<le> \<bar>x\<bar>" and "\<bar>x\<bar> < pow2 (e + 1)" and "- 126 \<le> e"
    and "x = of_int m * pow2 (e - 23)"
  shows "f32_nearest x = x"
proof -
  have "pow2 (e - 23) \<noteq> 0" using pow2_pos[of "e - 23"] by linarith
  then have "x / pow2 (e - 23) = of_int m" using assms(4) by simp
  then have "rne (x / pow2 (e - 23)) = m" by (simp only: rne_of_int)
  then show ?thesis using f32_nearest_eval[OF assms(1-3)] assms(4) by simp
qed

lemma f32_nearest_at:
  assumes "pow2 e \<le> \<bar>x\<bar>" and "\<bar>x\<bar> < pow2 (e + 1)" and "- 126 \<le> e"
    and "\<bar>x / pow2 (e - 23) - of_int m\<bar> < 1 / 2"
  shows "f32_nearest x = of_int m * pow2 (e - 23)"
  using f32_nearest_eval[OF assms(1-3)] rne_near[OF assms(4)] by simp

lemma f32_nearest_sqrt_at:
  assumes "(pow2 e)\<^sup>2 \<le> z" and "z < (pow2 (e + 1))\<^sup>2" and "- 126 \<le> e"
    and "((of_int m - 1 / 2) * pow2 (e - 23))\<^sup>2 < z"
    and "z < ((of_int m + 1 / 2) * pow2 (e - 23))\<^sup>2"
    and "1 \<le> m"
  shows "f32_nearest (sqrt z) = of_int m * pow2 (e - 23)"
proof -
  let ?u = "pow2 (e - 23)"
  have upos: "0 < ?u" by simp
  have z0: "0 \<le> z" using assms(1) by (smt (verit) zero_le_power2)
  have lo: "pow2 e \<le> sqrt z"
    using assms(1) by (simp add: real_le_rsqrt)
  have hi: "sqrt z < pow2 (e + 1)"
    using assms(2) z0 by (intro real_less_lsqrt) (simp_all add: less_imp_le)
  have sz: "0 \<le> sqrt z" using z0 by simp
  have a: "(of_int m - 1 / 2) * ?u < sqrt z"
    using assms(4) by (rule real_less_rsqrt)
  have mpos: "0 \<le> (real_of_int m + 1 / 2) * ?u"
    using assms(6) upos by (simp add: mult_nonneg_nonneg less_imp_le)
  have b: "sqrt z < (of_int m + 1 / 2) * ?u"
    using assms(5) z0 mpos by (intro real_less_lsqrt) simp_all
  have "real_of_int m - 1 / 2 < sqrt z / ?u" using a upos by (simp add: pos_less_divide_eq)
  moreover have "sqrt z / ?u < real_of_int m + 1 / 2" using b upos by (simp add: pos_divide_less_eq)
  ultimately have near: "\<bar>sqrt z / ?u - of_int m\<bar> < 1 / 2" by linarith
  show ?thesis
    by (rule f32_nearest_at) (use lo hi sz assms(3) near in simp_all)
qed

subsection \<open>Between two binary32 numbers there is a relative gap\<close>

lemma f32_representable_mantissa:
  assumes "f32_nearest x = x"
  shows "x = of_int (rne (x / f32_ulp x)) * f32_ulp x"
  using assms by (cases "x = 0") (simp_all add: f32_nearest_def)

lemma f32_gap:
  assumes "0 < a" and "a < b" and "f32_nearest a = a" and "f32_nearest b = b"
  shows "a \<le> b * (1 - pow2 (- 24))"
proof -
  let ?ma = "rne (a / f32_ulp a)" and ?mb = "rne (b / f32_ulp b)"
  have bpos: "0 < b" using assms by linarith
  have a: "a = of_int ?ma * f32_ulp a" using assms(3) by (rule f32_representable_mantissa)
  have b: "b = of_int ?mb * f32_ulp b" using assms(4) by (rule f32_representable_mantissa)
  have ee: "f32_exponent a \<le> f32_exponent b"
    using f32_exponent_mono[of a b] assms by simp
  have p24: "pow2 (- 24) * pow2 24 = 1"
    using pow2_add[of "- 24" 24] by (simp add: pow2_def)
  show ?thesis
  proof (cases "f32_exponent a = f32_exponent b")
    case True
    then have u: "f32_ulp a = f32_ulp b" by (simp add: f32_ulp_def)
    have "of_int ?ma * f32_ulp b < of_int ?mb * f32_ulp b"
      using assms(2) a b u by simp
    then have "real_of_int ?ma < real_of_int ?mb"
      using f32_ulp_pos[of b] by (simp add: mult_less_cancel_right)
    then have "?ma + 1 \<le> ?mb" by linarith
    then have "real_of_int ?ma + 1 \<le> real_of_int ?mb" by linarith
    then have "(real_of_int ?ma + 1) * f32_ulp b \<le> real_of_int ?mb * f32_ulp b"
      using f32_ulp_pos[of b] by (simp add: mult_right_mono less_imp_le)
    then have step: "a + f32_ulp b \<le> b"
      using a b u by (simp add: algebra_simps)
    have "b < pow2 24 * f32_ulp b"
      using f32_exponent_upper[of b] bpos by (simp add: pow2_24_ulp)
    then have "pow2 (- 24) * b < pow2 (- 24) * (pow2 24 * f32_ulp b)"
      by (simp add: mult_strict_left_mono)
    then have "pow2 (- 24) * b < f32_ulp b"
      using p24 by (simp add: mult.assoc[symmetric])
    then show ?thesis using step by (simp add: algebra_simps)
  next
    case False
    then have lt: "f32_exponent a + 1 \<le> f32_exponent b" using ee by linarith
    then have "- 126 < f32_exponent b" using f32_exponent_ge[of a] by linarith
    then have "pow2 (- 126) \<le> b" using f32_exponent_gt_imp[of b] bpos by simp
    then have bl: "pow2 (f32_exponent b) \<le> b" using f32_exponent_lower[of b] bpos by simp
    have "a < pow2 24 * f32_ulp a"
      using f32_exponent_upper[of a] assms(1) by (simp add: pow2_24_ulp)
    then have "of_int ?ma * f32_ulp a < of_int (2 ^ 24) * f32_ulp a"
      using a by (simp add: pow2_numeral_24)
    then have "real_of_int ?ma < real_of_int (2 ^ 24)"
      by (rule mult_right_less_imp_less) (simp add: less_imp_le)
    then have "?ma \<le> 2 ^ 24 - 1" by linarith
    then have "real_of_int ?ma \<le> pow2 24 - 1"
      by (simp add: pow2_def)
    then have "real_of_int ?ma * f32_ulp a \<le> (pow2 24 - 1) * f32_ulp a"
      using f32_ulp_pos[of a] by (simp add: mult_right_mono less_imp_le)
    then have "a \<le> pow2 24 * f32_ulp a - f32_ulp a"
      using a by (simp add: algebra_simps)
    also have "\<dots> = pow2 (f32_exponent a + 1) * (1 - pow2 (- 24))"
    proof -
      define B where "B = pow2 24 * f32_ulp a"
      have "f32_ulp a = (pow2 (- 24) * pow2 24) * f32_ulp a" by (simp only: p24 mult_1)
      then have eq: "f32_ulp a = pow2 (- 24) * B" by (simp only: B_def mult.assoc)
      have "pow2 24 * f32_ulp a - f32_ulp a = B - f32_ulp a" by (simp only: B_def)
      also have "\<dots> = B - pow2 (- 24) * B" by (subst eq) (rule refl)
      also have "\<dots> = B * (1 - pow2 (- 24))" by (simp add: algebra_simps)
      finally show ?thesis by (simp only: B_def pow2_24_ulp)
    qed
    also have "\<dots> \<le> b * (1 - pow2 (- 24))"
    proof -
      have "pow2 (f32_exponent a + 1) \<le> pow2 (f32_exponent b)" using lt by (rule pow2_mono)
      then have "pow2 (f32_exponent a + 1) \<le> b" using bl by linarith
      moreover have "0 \<le> 1 - pow2 (- 24)" by (simp add: pow2_def)
      ultimately show ?thesis by (rule mult_right_mono)
    qed
    finally show ?thesis .
  qed
qed

subsection \<open>Rounded results\<close>

lemma f32_max_pos: "0 < f32_max"
  by (simp add: f32_max_def)

lemma f32_of_real_valid [simp]: "f32_valid (f32_of_real x)"
  by (simp add: f32_of_real_def Let_def) linarith

lemma f32_of_real_exact:
  "f32_nearest x = x \<Longrightarrow> \<bar>x\<bar> \<le> f32_max \<Longrightarrow> f32_of_real x = Finite x"
  by (simp add: f32_of_real_def Let_def) linarith

lemma f32_of_real_mono: "x \<le> y \<Longrightarrow> f32_le (f32_of_real x) (f32_of_real y)"
  using f32_nearest_mono[of x y] f32_max_pos
  by (auto simp: f32_of_real_def Let_def)

lemma f32_of_real_not_NaN [simp]: "f32_of_real x \<noteq> NaN"
  by (simp add: f32_of_real_def Let_def)

lemma f32_le_trans: "f32_le a b \<Longrightarrow> f32_le b c \<Longrightarrow> f32_le a c"
  by (cases a; cases b; cases c) simp_all

lemma f32_sqrt_valid [simp]: "f32_valid (f32_sqrt a)"
  by (cases a) simp_all

lemma f32_max_value: "f32_max = 340282346638528859811704183484516925440"
  by (simp add: f32_max_def)

lemma f32_nearest_1 [simp]: "f32_nearest 1 = 1"
  by (rule f32_nearest_exact_int[where e = 0 and m = "2 ^ 23"]) (simp_all add: pow2_def)

lemma f32_nearest_pow2_m24: "f32_nearest (pow2 (- 24)) = pow2 (- 24)"
  by (rule f32_nearest_exact_int[where e = "- 24" and m = "2 ^ 23"]) (simp_all add: pow2_def)

lemma f32_nearest_pow2_m12: "f32_nearest (pow2 (- 12)) = pow2 (- 12)"
  by (rule f32_nearest_exact_int[where e = "- 12" and m = "2 ^ 23"]) (simp_all add: pow2_def)

lemma f32_nearest_below_1: "f32_nearest (1 - pow2 (- 24)) = 1 - pow2 (- 24)"
  by (rule f32_nearest_exact_int[where e = "- 1" and m = "2 ^ 24 - 1"]) (simp_all add: pow2_def)

lemma f32_max_ge_1: "1 \<le> f32_max"
  by (simp add: f32_max_def)

lemma f32_of_real_unit:
  assumes "0 \<le> x" and "x \<le> 1"
  shows "f32_of_real x = Finite (f32_nearest x)"
proof -
  have "0 \<le> f32_nearest x" using assms(1) by (rule f32_nearest_nonneg)
  moreover have "f32_nearest x \<le> 1" using f32_nearest_mono[OF assms(2)] by simp
  ultimately show ?thesis using f32_max_ge_1 by (simp add: f32_of_real_def Let_def)
qed

lemma f32_of_real_finite:
  "\<bar>f32_nearest x\<bar> \<le> f32_max \<Longrightarrow> f32_of_real x = Finite (f32_nearest x)"
  by (simp add: f32_of_real_def Let_def) linarith

section \<open>Time dilation on binary32\<close>

lemma td_quotient_bounds:
  assumes "0 < r" and "r < d" and "f32_nearest r = r" and "f32_nearest d = d"
  shows "0 \<le> f32_nearest (r / d)" and "f32_nearest (r / d) \<le> 1 - pow2 (- 24)"
proof -
  have dpos: "0 < d" using assms by linarith
  show "0 \<le> f32_nearest (r / d)"
    using assms(1) dpos by (intro f32_nearest_nonneg) simp
  have "r \<le> d * (1 - pow2 (- 24))" using assms by (intro f32_gap) simp_all
  then have "r / d \<le> 1 - pow2 (- 24)" using dpos by (simp add: pos_divide_le_eq mult.commute)
  then have "f32_nearest (r / d) \<le> f32_nearest (1 - pow2 (- 24))" by (rule f32_nearest_mono)
  then show "f32_nearest (r / d) \<le> 1 - pow2 (- 24)" by (simp only: f32_nearest_below_1)
qed

lemma td_factor_bounds:
  assumes "0 < r" and "r < d" and "f32_nearest r = r" and "f32_nearest d = d"
  shows "pow2 (- 24) \<le> f32_nearest (1 - f32_nearest (r / d))"
    and "f32_nearest (1 - f32_nearest (r / d)) \<le> 1"
proof -
  note q = td_quotient_bounds[OF assms]
  have "pow2 (- 24) \<le> 1 - f32_nearest (r / d)" using q(2) by linarith
  then have "f32_nearest (pow2 (- 24)) \<le> f32_nearest (1 - f32_nearest (r / d))"
    by (rule f32_nearest_mono)
  then show "pow2 (- 24) \<le> f32_nearest (1 - f32_nearest (r / d))"
    by (simp only: f32_nearest_pow2_m24)
  have "1 - f32_nearest (r / d) \<le> 1" using q(1) by linarith
  then have "f32_nearest (1 - f32_nearest (r / d)) \<le> f32_nearest 1" by (rule f32_nearest_mono)
  then show "f32_nearest (1 - f32_nearest (r / d)) \<le> 1" by simp
qed

lemma sqrt_pow2_m24: "sqrt (pow2 (- 24)) = pow2 (- 12)"
  by (rule real_sqrt_unique) (simp_all add: pow2_def power2_eq_square)

lemma td_value_bounds:
  assumes "0 < r" and "r < d" and "f32_nearest r = r" and "f32_nearest d = d"
  shows "pow2 (- 12) \<le> td_value r d" and "td_value r d \<le> 1"
proof -
  note f = td_factor_bounds[OF assms]
  have "sqrt (pow2 (- 24)) \<le> sqrt (f32_nearest (1 - f32_nearest (r / d)))"
    using f(1) by simp
  then have "pow2 (- 12) \<le> sqrt (f32_nearest (1 - f32_nearest (r / d)))"
    by (simp only: sqrt_pow2_m24)
  then have "f32_nearest (pow2 (- 12)) \<le> td_value r d"
    unfolding td_value_def by (rule f32_nearest_mono)
  then show "pow2 (- 12) \<le> td_value r d" by (simp only: f32_nearest_pow2_m12)
  have "sqrt (f32_nearest (1 - f32_nearest (r / d))) \<le> sqrt 1" using f(2) by simp
  then have "sqrt (f32_nearest (1 - f32_nearest (r / d))) \<le> 1" by simp
  then have "td_value r d \<le> f32_nearest 1"
    unfolding td_value_def by (rule f32_nearest_mono)
  then show "td_value r d \<le> 1" by simp
qed

lemma td_value_mono:
  assumes "0 < r" and "0 < d1" and "d1 \<le> d2"
  shows "td_value r d1 \<le> td_value r d2"
proof -
  have "r / d2 \<le> r / d1" using assms by (simp add: frac_le)
  then have "f32_nearest (r / d2) \<le> f32_nearest (r / d1)" by (rule f32_nearest_mono)
  then have "1 - f32_nearest (r / d1) \<le> 1 - f32_nearest (r / d2)" by linarith
  then have "f32_nearest (1 - f32_nearest (r / d1)) \<le> f32_nearest (1 - f32_nearest (r / d2))"
    by (rule f32_nearest_mono)
  then have "sqrt (f32_nearest (1 - f32_nearest (r / d1)))
             \<le> sqrt (f32_nearest (1 - f32_nearest (r / d2)))" by simp
  then show ?thesis unfolding td_value_def by (rule f32_nearest_mono)
qed

lemma CalculateTimeDilation_f32_finite:
  assumes rs: "schwarzschildRadius32 bh = Finite r"
    and d: "Vector3Distance_f32 p (bh_position32 bh) = Finite d"
    and "0 < r" and "r < d" and "f32_nearest r = r"
  shows "CalculateTimeDilation_f32 p bh = Finite (td_value r d)"
proof -
  have "f32_valid (Vector3Distance_f32 p (bh_position32 bh))"
    by (simp add: Vector3Distance_f32_def Let_def)
  then have dv: "f32_nearest d = d" by (simp add: d)
  note a = \<open>0 < r\<close> \<open>r < d\<close> \<open>f32_nearest r = r\<close> dv
  note q = td_quotient_bounds[OF a]
  note f = td_factor_bounds[OF a]
  note v = td_value_bounds[OF a]
  have dne: "d \<noteq> 0" using a by linarith
  have p24: "0 < pow2 (- 24)" by simp
  have p12: "0 < pow2 (- 12)" by simp
  have q1: "f32_nearest (r / d) \<le> 1" using q(2) p24 by linarith
  have quot: "f32_div (Finite r) (Finite d) = Finite (f32_nearest (r / d))"
    using dne q(1) q1 f32_of_real_unit[of "r / d"] a by (simp add: f32_of_real_unit)
  have "0 \<le> 1 - f32_nearest (r / d)" "1 - f32_nearest (r / d) \<le> 1" using q q1 by linarith+
  then have fac: "f32_sub (Finite 1) (Finite (f32_nearest (r / d)))
                  = Finite (f32_nearest (1 - f32_nearest (r / d)))"
    by (simp add: f32_sub_def f32_of_real_unit)
  have fpos: "0 < f32_nearest (1 - f32_nearest (r / d))" using f(1) p24 by linarith
  have "0 \<le> sqrt (f32_nearest (1 - f32_nearest (r / d)))"
    "sqrt (f32_nearest (1 - f32_nearest (r / d))) \<le> 1"
    using fpos f(2) by simp_all
  then have sq: "f32_sqrt (Finite (f32_nearest (1 - f32_nearest (r / d))))
                 = Finite (td_value r d)"
    using fpos by (simp add: f32_of_real_unit td_value_def)
  have le1: "\<not> f32_le (Finite d) (Finite r)" using a(2) by simp
  have le2: "\<not> f32_le (Finite (f32_nearest (1 - f32_nearest (r / d)))) (Finite 0)"
    using fpos by simp
  show ?thesis
    unfolding CalculateTimeDilation_f32_def Let_def rs d
    by (simp only: le1 if_False quot fac le2 sq)
qed

lemma CalculateTimeDilation_f32_infinite:
  assumes rs: "schwarzschildRadius32 bh = Finite r"
    and d: "Vector3Distance_f32 p (bh_position32 bh) = PInf"
  shows "CalculateTimeDilation_f32 p bh = Finite 1"
  by (simp add: CalculateTimeDilation_f32_def Let_def rs d f32_sub_def f32_of_real_unit)

text \<open>
  C2, on binary32. With a \<open>schwarzschildRadius\<close> that is a positive binary32
  number, at every observer position whose computed distance \<open>d\<close> to the centre
  is greater than \<open>schwarzschildRadius\<close> the result of \<^verbatim>\<open>CalculateTimeDilation\<close>
  lies in \<open>(0, 1]\<close>; it is at most the result at any position whose computed
  distance is \<open>d\<close> or more; and with \<open>schwarzschildRadius = 2\<close> and \<open>d = 4\<close> it is
  the binary32 number nearest to \<open>sqrt 0.5\<close>.
\<close>

theorem CalculateTimeDilation_f32_range_and_monotone:
  assumes rs: "schwarzschildRadius32 bh = Finite r" and "0 < r" and "f32_nearest r = r"
    and far: "f32_lt (schwarzschildRadius32 bh) (Vector3Distance_f32 p (bh_position32 bh))"
  shows "f32_lt (Finite 0) (CalculateTimeDilation_f32 p bh)
    \<and> f32_le (CalculateTimeDilation_f32 p bh) (Finite 1)
    \<and> (\<forall>q. f32_le (Vector3Distance_f32 p (bh_position32 bh))
                   (Vector3Distance_f32 q (bh_position32 bh))
           \<longrightarrow> f32_le (CalculateTimeDilation_f32 p bh) (CalculateTimeDilation_f32 q bh))
    \<and> (r = 2 \<and> Vector3Distance_f32 p (bh_position32 bh) = Finite 4
           \<longrightarrow> CalculateTimeDilation_f32 p bh = f32_of_real (sqrt 0.5))"
proof -
  let ?c = "bh_position32 bh"
  let ?dp = "Vector3Distance_f32 p ?c"
  have p12: "0 < pow2 (- 12)" by simp
  consider (fin) d where "?dp = Finite d" "r < d" | (inf) "?dp = PInf"
    using far rs by (cases ?dp) simp_all
  then show ?thesis
  proof cases
    case fin
    have val: "CalculateTimeDilation_f32 p bh = Finite (td_value r d)"
      using rs fin(1) \<open>0 < r\<close> fin(2) \<open>f32_nearest r = r\<close>
      by (rule CalculateTimeDilation_f32_finite)
    have "f32_valid ?dp" by (simp add: Vector3Distance_f32_def Let_def)
    then have dv: "f32_nearest d = d" by (simp add: fin(1))
    note b = td_value_bounds[OF \<open>0 < r\<close> fin(2) \<open>f32_nearest r = r\<close> dv]
    have "0 < td_value r d" using b(1) p12 by linarith
    then have c1: "f32_lt (Finite 0) (CalculateTimeDilation_f32 p bh)"
      by (simp add: val)
    have c2: "f32_le (CalculateTimeDilation_f32 p bh) (Finite 1)"
      using b(2) by (simp add: val)
    have c3: "f32_le (CalculateTimeDilation_f32 p bh) (CalculateTimeDilation_f32 q bh)"
      if le: "f32_le ?dp (Vector3Distance_f32 q ?c)" for q
    proof -
      consider (qfin) d' where "Vector3Distance_f32 q ?c = Finite d'" "d \<le> d'"
        | (qinf) "Vector3Distance_f32 q ?c = PInf"
        using le fin(1) by (cases "Vector3Distance_f32 q ?c") simp_all
      then show ?thesis
      proof cases
        case qfin
        have "r < d'" using fin(2) qfin(2) by linarith
        then have "CalculateTimeDilation_f32 q bh = Finite (td_value r d')"
          using rs qfin(1) \<open>0 < r\<close> \<open>f32_nearest r = r\<close>
          by (intro CalculateTimeDilation_f32_finite)
        moreover have "td_value r d \<le> td_value r d'"
          using \<open>0 < r\<close> fin(2) qfin(2) by (intro td_value_mono) linarith+
        ultimately show ?thesis by (simp add: val)
      next
        case qinf
        then have "CalculateTimeDilation_f32 q bh = Finite 1"
          using rs by (intro CalculateTimeDilation_f32_infinite)
        then show ?thesis using b(2) by (simp add: val)
      qed
    qed
    have c4: "CalculateTimeDilation_f32 p bh = f32_of_real (sqrt 0.5)"
      if "r = 2" "?dp = Finite 4"
    proof -
      have d4: "d = 4" using that(2) fin(1) by simp
      have half: "f32_nearest (1 / 2) = 1 / 2"
        by (rule f32_nearest_exact_int[where e = "- 1" and m = "2 ^ 23"]) (simp_all add: pow2_def)
      have "td_value 2 4 = f32_nearest (sqrt (1 / 2))"
        by (simp add: td_value_def half)
      moreover have "f32_of_real (sqrt (1 / 2)) = Finite (f32_nearest (sqrt (1 / 2)))"
        by (rule f32_of_real_unit) (simp_all add: real_sqrt_le_1_iff)
      ultimately show ?thesis using val that(1) d4 by simp
    qed
    show ?thesis using c1 c2 c3 c4 by blast
  next
    case inf
    have val: "CalculateTimeDilation_f32 p bh = Finite 1"
      using rs inf by (rule CalculateTimeDilation_f32_infinite)
    have c3: "f32_le (CalculateTimeDilation_f32 p bh) (CalculateTimeDilation_f32 q bh)"
      if le: "f32_le ?dp (Vector3Distance_f32 q ?c)" for q
    proof -
      have "Vector3Distance_f32 q ?c = PInf"
        using le inf by (cases "Vector3Distance_f32 q ?c") simp_all
      then have "CalculateTimeDilation_f32 q bh = Finite 1"
        using rs by (intro CalculateTimeDilation_f32_infinite)
      then show ?thesis by (simp add: val)
    qed
    show ?thesis using c3 by (simp add: val inf)
  qed
qed

subsection \<open>The roundings at the distances 4, 4100 and 4100.5\<close>

lemma Vector3Distance_f32_x_axis:
  assumes "f32_nearest a = a" and "\<bar>a\<bar> \<le> f32_max" and "f32_nearest (a * a) \<le> f32_max"
  shows "Vector3Distance_f32
           \<lparr>v3_x32 = Finite a, v3_y32 = Finite 0, v3_z32 = Finite 0\<rparr>
           \<lparr>v3_x32 = Finite 0, v3_y32 = Finite 0, v3_z32 = Finite 0\<rparr>
         = f32_of_real (sqrt (f32_nearest (a * a)))"
proof -
  let ?s = "f32_nearest (a * a)"
  have s0: "0 \<le> ?s" by (intro f32_nearest_nonneg) simp
  have dx: "f32_sub (Finite 0) (Finite a) = Finite (- a)"
    using assms(1,2) by (simp add: f32_sub_def f32_of_real_exact f32_nearest_minus)
  have z: "f32_sub (Finite 0) (Finite 0) = Finite 0"
    using f32_max_pos by (simp add: f32_sub_def f32_of_real_exact)
  have sq: "f32_mul (Finite (- a)) (Finite (- a)) = Finite ?s"
    using s0 assms(3) by (simp add: f32_of_real_finite)
  have zz: "f32_mul (Finite 0) (Finite 0) = Finite 0"
    using f32_max_pos by (simp add: f32_of_real_exact)
  have add: "f32_add (Finite ?s) (Finite 0) = Finite ?s"
    using s0 assms(3) by (simp add: f32_of_real_exact)
  have rt: "f32_sqrt (Finite ?s) = f32_of_real (sqrt ?s)"
    using s0 by simp
  show ?thesis
    unfolding Vector3Distance_f32_def Let_def
    by (simp only: Vector3_f32.simps dx z sq zz add rt)
qed

lemma nearest_4100: "f32_nearest 4100 = 4100"
  by (rule f32_nearest_exact_int[where e = 12 and m = 8396800]) (simp_all add: pow2_def)

lemma nearest_4100_5: "f32_nearest (8201 / 2) = 8201 / 2"
  by (rule f32_nearest_exact_int[where e = 12 and m = 8397824]) (simp_all add: pow2_def)

lemma nearest_4100_sq: "f32_nearest 16810000 = 16810000"
  by (rule f32_nearest_exact_int[where e = 24 and m = 8405000]) (simp_all add: pow2_def)

lemma nearest_4100_5_sq: "f32_nearest (67256401 / 4) = 16814100"
  using f32_nearest_at[where x = "67256401 / 4" and e = 24 and m = 8407050]
  by (simp add: pow2_def)

lemma sqrt_16810000: "sqrt 16810000 = 4100"
  by (rule real_sqrt_unique) simp_all

lemma nearest_sqrt_16814100: "f32_nearest (sqrt 16814100) = 8201 / 2"
  using f32_nearest_sqrt_at[where z = 16814100 and e = 12 and m = 8397824]
  by (simp add: pow2_def power2_eq_square)

lemma distance_4100:
  "Vector3Distance_f32
     \<lparr>v3_x32 = Finite 4100, v3_y32 = Finite 0, v3_z32 = Finite 0\<rparr>
     \<lparr>v3_x32 = Finite 0, v3_y32 = Finite 0, v3_z32 = Finite 0\<rparr> = Finite 4100"
  using Vector3Distance_f32_x_axis[of 4100]
  by (simp add: nearest_4100 nearest_4100_sq sqrt_16810000 f32_of_real_exact f32_max_value)

lemma distance_4100_5:
  "Vector3Distance_f32
     \<lparr>v3_x32 = Finite (8201 / 2), v3_y32 = Finite 0, v3_z32 = Finite 0\<rparr>
     \<lparr>v3_x32 = Finite 0, v3_y32 = Finite 0, v3_z32 = Finite 0\<rparr> = Finite (8201 / 2)"
  using Vector3Distance_f32_x_axis[of "8201 / 2"]
  by (simp add: nearest_4100_5 nearest_4100_5_sq nearest_sqrt_16814100 f32_of_real_finite
      f32_max_value)

lemma nearest_q_4100: "f32_nearest (2 / 4100) = 1047553 / 2147483648"
  using f32_nearest_at[where x = "2 / 4100" and e = "- 12" and m = 16760848]
  by (simp add: pow2_def)

lemma nearest_factor_4100: "f32_nearest (1 - 1047553 / 2147483648) = 2096129 / 2097152"
  using f32_nearest_at[where x = "1 - 1047553 / 2147483648" and e = "- 1" and m = 16769032]
  by (simp add: pow2_def)

lemma nearest_sqrt_4100: "f32_nearest (sqrt (2096129 / 2097152)) = 4193281 / 4194304"
  using f32_nearest_sqrt_at[where z = "2096129 / 2097152" and e = "- 1" and m = 16773124]
  by (simp add: pow2_def power2_eq_square)

lemma td_value_4100: "td_value 2 4100 = 4193281 / 4194304"
  unfolding td_value_def
  by (simp only: nearest_q_4100 nearest_factor_4100 nearest_sqrt_4100)

lemma nearest_q_4100_5: "f32_nearest (2 / (8201 / 2)) = 4189701 / 8589934592"
  using f32_nearest_at[where x = "2 / (8201 / 2)" and e = "- 12" and m = 16758804]
  by (simp add: pow2_def)

lemma nearest_factor_4100_5: "f32_nearest (1 - 4189701 / 8589934592) = 16769033 / 16777216"
  using f32_nearest_at[where x = "1 - 4189701 / 8589934592" and e = "- 1" and m = 16769033]
  by (simp add: pow2_def)

lemma nearest_sqrt_4100_5: "f32_nearest (sqrt (16769033 / 16777216)) = 4193281 / 4194304"
  using f32_nearest_sqrt_at[where z = "16769033 / 16777216" and e = "- 1" and m = 16773124]
  by (simp add: pow2_def power2_eq_square)

lemma td_value_4100_5: "td_value 2 (8201 / 2) = 4193281 / 4194304"
  unfolding td_value_def
  by (simp only: nearest_q_4100_5 nearest_factor_4100_5 nearest_sqrt_4100_5)

lemma nearest_sqrt_half: "f32_nearest (sqrt (1 / 2)) = 11863283 / 16777216"
  using f32_nearest_sqrt_at[where z = "1 / 2" and e = "- 1" and m = 11863283]
  by (simp add: pow2_def power2_eq_square)

lemma nearest_half: "f32_nearest (1 / 2) = 1 / 2"
  by (rule f32_nearest_exact_int[where e = "- 1" and m = "2 ^ 23"]) (simp_all add: pow2_def)

lemma td_value_4: "td_value 2 4 = 11863283 / 16777216"
proof -
  have a: "(2 :: real) / 4 = 1 / 2" and b: "(1 :: real) - 1 / 2 = 1 / 2" by simp_all
  show ?thesis
    unfolding td_value_def by (simp only: a b nearest_half nearest_sqrt_half)
qed

lemma nearest_2: "f32_nearest 2 = 2"
  by (rule f32_nearest_exact_int[where e = 1 and m = "2 ^ 23"]) (simp_all add: pow2_def)

lemma nearest_4: "f32_nearest 4 = 4"
  by (rule f32_nearest_exact_int[where e = 2 and m = "2 ^ 23"]) (simp_all add: pow2_def)

lemma nearest_16: "f32_nearest 16 = 16"
  by (rule f32_nearest_exact_int[where e = 4 and m = "2 ^ 23"]) (simp_all add: pow2_def)

lemma sqrt_16: "sqrt 16 = 4"
  by (rule real_sqrt_unique) simp_all

lemma distance_4:
  "Vector3Distance_f32
     \<lparr>v3_x32 = Finite 4, v3_y32 = Finite 0, v3_z32 = Finite 0\<rparr>
     \<lparr>v3_x32 = Finite 0, v3_y32 = Finite 0, v3_z32 = Finite 0\<rparr> = Finite 4"
  using Vector3Distance_f32_x_axis[of 4]
  by (simp add: nearest_4 nearest_16 sqrt_16 f32_of_real_exact f32_max_value)

text \<open>
  C2, as the claim has it, fails on binary32. With \<open>schwarzschildRadius = 2\<close> and
  the black hole at the origin, the observers at \<open>(4100, 0, 0)\<close> and
  \<open>(4100.5, 0, 0)\<close> are at the computed distances 4100 and 4100.5, and
  \<^verbatim>\<open>CalculateTimeDilation\<close> returns \<open>4193281 / 4194304\<close> for both: the distance
  grows and the result does not. At the distance 4 the result is
  \<open>11863283 / 16777216\<close>, which is not \<open>sqrt 0.5\<close>.
\<close>

theorem CalculateTimeDilation_f32_not_strictly_increasing:
  "(let bh = \<lparr>bh_position32 = \<lparr>v3_x32 = Finite 0, v3_y32 = Finite 0, v3_z32 = Finite 0\<rparr>,
              mass32 = Finite 1, schwarzschildRadius32 = Finite 2, iscoRadius32 = Finite 6\<rparr>;
        p = \<lparr>v3_x32 = Finite 4100, v3_y32 = Finite 0, v3_z32 = Finite 0\<rparr>;
        q = \<lparr>v3_x32 = Finite (8201 / 2), v3_y32 = Finite 0, v3_z32 = Finite 0\<rparr>;
        p4 = \<lparr>v3_x32 = Finite 4, v3_y32 = Finite 0, v3_z32 = Finite 0\<rparr>
    in Vector3Distance_f32 p (bh_position32 bh) = Finite 4100
     \<and> Vector3Distance_f32 q (bh_position32 bh) = Finite (8201 / 2)
     \<and> f32_lt (schwarzschildRadius32 bh) (Vector3Distance_f32 p (bh_position32 bh))
     \<and> f32_lt (Vector3Distance_f32 p (bh_position32 bh)) (Vector3Distance_f32 q (bh_position32 bh))
     \<and> CalculateTimeDilation_f32 p bh = Finite (4193281 / 4194304)
     \<and> CalculateTimeDilation_f32 q bh = Finite (4193281 / 4194304)
     \<and> \<not> f32_lt (CalculateTimeDilation_f32 p bh) (CalculateTimeDilation_f32 q bh)
     \<and> Vector3Distance_f32 p4 (bh_position32 bh) = Finite 4
     \<and> CalculateTimeDilation_f32 p4 bh = Finite (11863283 / 16777216)
     \<and> (11863283 / 16777216 :: real) \<noteq> sqrt 0.5)"
proof -
  let ?o = "\<lparr>v3_x32 = Finite 0, v3_y32 = Finite 0, v3_z32 = Finite 0\<rparr>"
  let ?bh = "\<lparr>bh_position32 = ?o,
              mass32 = Finite 1, schwarzschildRadius32 = Finite 2, iscoRadius32 = Finite 6\<rparr>"
  let ?p = "\<lparr>v3_x32 = Finite 4100, v3_y32 = Finite 0, v3_z32 = Finite 0\<rparr>"
  let ?q = "\<lparr>v3_x32 = Finite (8201 / 2), v3_y32 = Finite 0, v3_z32 = Finite 0\<rparr>"
  have rs: "schwarzschildRadius32 ?bh = Finite 2" by simp
  have dp: "Vector3Distance_f32 ?p (bh_position32 ?bh) = Finite 4100"
    by (simp add: distance_4100)
  have dq: "Vector3Distance_f32 ?q (bh_position32 ?bh) = Finite (8201 / 2)"
    by (simp add: distance_4100_5)
  have tp: "CalculateTimeDilation_f32 ?p ?bh = Finite (td_value 2 4100)"
    using rs dp by (rule CalculateTimeDilation_f32_finite) (simp_all add: nearest_2)
  have tq: "CalculateTimeDilation_f32 ?q ?bh = Finite (td_value 2 (8201 / 2))"
    using rs dq by (rule CalculateTimeDilation_f32_finite) (simp_all add: nearest_2)
  let ?p4 = "\<lparr>v3_x32 = Finite 4, v3_y32 = Finite 0, v3_z32 = Finite 0\<rparr>"
  have d4: "Vector3Distance_f32 ?p4 (bh_position32 ?bh) = Finite 4"
    by (simp add: distance_4)
  have t4: "CalculateTimeDilation_f32 ?p4 ?bh = Finite (td_value 2 4)"
    using rs d4 by (rule CalculateTimeDilation_f32_finite) (simp_all add: nearest_2)
  have ne: "(11863283 / 16777216 :: real) \<noteq> sqrt 0.5"
  proof
    assume eq: "(11863283 / 16777216 :: real) = sqrt 0.5"
    have "(sqrt 0.5)\<^sup>2 = (0.5 :: real)" by simp
    then have "(11863283 / 16777216 :: real)\<^sup>2 = 0.5" by (simp only: eq[symmetric])
    then show False by (simp add: power2_eq_square)
  qed
  show ?thesis
    unfolding Let_def tp tq dp dq d4 t4 td_value_4100 td_value_4100_5 td_value_4
    using ne by simp
qed

text \<open>
  The black hole of \<^verbatim>\<open>InitSimulation\<close>, an observer at distance 4 and one at
  distance 4100.
\<close>

theorem CalculateTimeDilation_f32_range_and_monotone_witness:
  "(let bh = \<lparr>bh_position32 = \<lparr>v3_x32 = Finite 0, v3_y32 = Finite 0, v3_z32 = Finite 0\<rparr>,
              mass32 = Finite 1, schwarzschildRadius32 = Finite 2, iscoRadius32 = Finite 6\<rparr>;
        p = \<lparr>v3_x32 = Finite 4, v3_y32 = Finite 0, v3_z32 = Finite 0\<rparr>;
        q = \<lparr>v3_x32 = Finite 4100, v3_y32 = Finite 0, v3_z32 = Finite 0\<rparr>
    in schwarzschildRadius32 bh = Finite 2 \<and> (0 :: real) < 2 \<and> f32_nearest 2 = 2
     \<and> f32_lt (schwarzschildRadius32 bh) (Vector3Distance_f32 p (bh_position32 bh))
     \<and> f32_le (Vector3Distance_f32 p (bh_position32 bh)) (Vector3Distance_f32 q (bh_position32 bh))
     \<and> Vector3Distance_f32 p (bh_position32 bh) = Finite 4
     \<and> f32_lt (Finite 0) (CalculateTimeDilation_f32 p bh)
     \<and> f32_le (CalculateTimeDilation_f32 p bh) (Finite 1)
     \<and> f32_le (CalculateTimeDilation_f32 p bh) (CalculateTimeDilation_f32 q bh)
     \<and> CalculateTimeDilation_f32 p bh = f32_of_real (sqrt 0.5)
     \<and> f32_of_real (sqrt 0.5) = Finite (11863283 / 16777216))"
proof -
  let ?o = "\<lparr>v3_x32 = Finite 0, v3_y32 = Finite 0, v3_z32 = Finite 0\<rparr>"
  let ?bh = "\<lparr>bh_position32 = ?o,
              mass32 = Finite 1, schwarzschildRadius32 = Finite 2, iscoRadius32 = Finite 6\<rparr>"
  let ?p = "\<lparr>v3_x32 = Finite 4, v3_y32 = Finite 0, v3_z32 = Finite 0\<rparr>"
  let ?q = "\<lparr>v3_x32 = Finite 4100, v3_y32 = Finite 0, v3_z32 = Finite 0\<rparr>"
  have rs: "schwarzschildRadius32 ?bh = Finite 2" by simp
  have r0: "(0 :: real) < 2" by simp
  have dp: "Vector3Distance_f32 ?p (bh_position32 ?bh) = Finite 4"
    by (simp add: distance_4)
  have dq: "Vector3Distance_f32 ?q (bh_position32 ?bh) = Finite 4100"
    by (simp add: distance_4100)
  have far: "f32_lt (schwarzschildRadius32 ?bh) (Vector3Distance_f32 ?p (bh_position32 ?bh))"
    unfolding dp by simp
  have le: "f32_le (Vector3Distance_f32 ?p (bh_position32 ?bh))
                   (Vector3Distance_f32 ?q (bh_position32 ?bh))"
    unfolding dp dq by simp
  note T = CalculateTimeDilation_f32_range_and_monotone[OF rs r0 nearest_2 far]
  from T have c1: "f32_lt (Finite 0) (CalculateTimeDilation_f32 ?p ?bh)"
    and c2: "f32_le (CalculateTimeDilation_f32 ?p ?bh) (Finite 1)" by blast+
  from T le have c3: "f32_le (CalculateTimeDilation_f32 ?p ?bh) (CalculateTimeDilation_f32 ?q ?bh)"
    by blast
  from T dp have c4: "CalculateTimeDilation_f32 ?p ?bh = f32_of_real (sqrt 0.5)" by blast
  have "f32_of_real (sqrt (1 / 2)) = Finite (f32_nearest (sqrt (1 / 2)))"
    by (rule f32_of_real_unit) (simp_all add: real_sqrt_le_1_iff)
  then have c5: "f32_of_real (sqrt 0.5) = Finite (11863283 / 16777216)"
    by (simp add: nearest_sqrt_half)
  show ?thesis
    unfolding Let_def using rs r0 nearest_2 far le dp c1 c2 c3 c4 c5 by blast
qed

section \<open>UpdateSimulation on binary32\<close>

lemma f32_nonneg_cases: "f32_nonneg a \<longleftrightarrow> (\<exists>x. a = Finite x \<and> 0 \<le> x) \<or> a = PInf"
  by (cases a) (simp_all add: f32_nonneg_def)

lemma f32_of_real_nonneg: "0 \<le> x \<Longrightarrow> f32_nonneg (f32_of_real x)"
  using f32_nearest_nonneg[of x] f32_max_pos
  by (auto simp: f32_nonneg_def f32_of_real_def Let_def)

lemma f32_sub_finite_not_NaN:
  "f32_is_finite a \<Longrightarrow> f32_is_finite b \<Longrightarrow> f32_sub a b \<noteq> NaN"
  by (cases a; cases b) (simp_all add: f32_sub_def)

lemma f32_mul_self_nonneg: "a \<noteq> NaN \<Longrightarrow> f32_nonneg (f32_mul a a)"
  by (cases a) (simp_all add: f32_of_real_nonneg, simp_all add: f32_nonneg_def)

lemma f32_add_nonneg: "f32_nonneg a \<Longrightarrow> f32_nonneg b \<Longrightarrow> f32_nonneg (f32_add a b)"
  by (auto simp: f32_nonneg_cases[of a] f32_nonneg_cases[of b] f32_of_real_nonneg)
     (simp_all add: f32_nonneg_def)

lemma f32_sqrt_nonneg: "f32_nonneg a \<Longrightarrow> f32_nonneg (f32_sqrt a)"
  by (auto simp: f32_nonneg_cases[of a] f32_of_real_nonneg) (simp_all add: f32_nonneg_def)

lemma Vector3Distance_f32_nonneg:
  assumes "vec3_is_finite v1" and "vec3_is_finite v2"
  shows "f32_nonneg (Vector3Distance_f32 v1 v2)"
  using assms unfolding Vector3Distance_f32_def Let_def vec3_is_finite_def
  by (intro f32_sqrt_nonneg f32_add_nonneg f32_mul_self_nonneg f32_sub_finite_not_NaN) simp_all

lemma f32_quotient_le_1:
  assumes "0 < d" and "r < d"
  shows "(\<exists>v. f32_of_real (r / d) = Finite v \<and> v \<le> 1) \<or> f32_of_real (r / d) = NInf"
proof -
  have "r / d \<le> 1" using assms by simp
  then have "f32_nearest (r / d) \<le> f32_nearest 1" by (rule f32_nearest_mono)
  then have "f32_nearest (r / d) \<le> 1" by simp
  then show ?thesis using f32_max_ge_1 by (simp add: f32_of_real_def Let_def)
qed

lemma f32_factor_nonneg:
  assumes "v \<le> 1"
  shows "f32_nonneg (f32_sub (Finite 1) (Finite v))"
  using assms by (simp add: f32_sub_def f32_of_real_nonneg)

lemma f32_sqrt_branch_nonneg:
  assumes "f32_nonneg a"
  shows "f32_nonneg (if f32_le a (Finite 0) then Finite 0 else f32_sqrt a)"
  using assms by (simp add: f32_sqrt_nonneg) (simp add: f32_nonneg_def)

lemma CalculateTimeDilation_f32_nonneg:
  assumes rs: "schwarzschildRadius32 bh = Finite r"
    and d: "f32_nonneg (Vector3Distance_f32 p (bh_position32 bh))"
  shows "f32_nonneg (CalculateTimeDilation_f32 p bh)"
proof -
  let ?d = "Vector3Distance_f32 p (bh_position32 bh)"
  have z: "f32_nonneg (Finite 0)" by (simp add: f32_nonneg_def)
  have pinf: "f32_nonneg PInf" by (simp add: f32_nonneg_def)
  consider (fin) dv where "?d = Finite dv" "0 \<le> dv" | (inf) "?d = PInf"
    using d by (auto simp: f32_nonneg_cases)
  then show ?thesis
  proof cases
    case inf
    then show ?thesis
      by (simp add: CalculateTimeDilation_f32_def Let_def rs f32_sub_def f32_of_real_unit)
         (simp add: f32_nonneg_def)
  next
    case fin
    show ?thesis
    proof (cases "dv \<le> r")
      case True
      then show ?thesis
        by (simp add: CalculateTimeDilation_f32_def Let_def rs fin(1) z)
    next
      case False
      then have rd: "r < dv" by linarith
      have fac: "f32_nonneg (f32_sub (Finite 1) (f32_div (Finite r) (Finite dv)))"
      proof (cases "dv = 0")
        case True
        then have "r < 0" using rd by simp
        then show ?thesis using True by (simp add: f32_sub_def pinf)
      next
        case False
        then have dpos: "0 < dv" using fin(2) by linarith
        have q: "f32_div (Finite r) (Finite dv) = f32_of_real (r / dv)" using False by simp
        from f32_quotient_le_1[OF dpos rd] show ?thesis
        proof
          assume "\<exists>v. f32_of_real (r / dv) = Finite v \<and> v \<le> 1"
          then obtain v where v: "f32_of_real (r / dv) = Finite v" "v \<le> 1" by blast
          show ?thesis unfolding q v(1) using v(2) by (rule f32_factor_nonneg)
        next
          assume n: "f32_of_real (r / dv) = NInf"
          show ?thesis unfolding q n by (simp add: f32_sub_def pinf)
        qed
      qed
      have "CalculateTimeDilation_f32 p bh =
            (if f32_le (f32_sub (Finite 1) (f32_div (Finite r) (Finite dv))) (Finite 0)
             then Finite 0
             else f32_sqrt (f32_sub (Finite 1) (f32_div (Finite r) (Finite dv))))"
        using False by (simp add: CalculateTimeDilation_f32_def Let_def rs fin(1))
      then show ?thesis using f32_sqrt_branch_nonneg[OF fac] by simp
    qed
  qed
qed

lemma f32_add_nonneg_step:
  assumes "f32_time_ok t" and "f32_nonneg z"
  shows "f32_le t (f32_add t z)" and "f32_time_ok (f32_add t z)"
proof -
  consider (ff) a b where "t = Finite a" "z = Finite b" "0 \<le> b"
    | (fi) a where "t = Finite a" "z = PInf"
    | (it) "t = PInf"
    using assms by (cases t) (auto simp: f32_time_ok_def f32_nonneg_cases)
  then have "f32_le t (f32_add t z) \<and> f32_time_ok (f32_add t z)"
  proof cases
    case ff
    have va: "f32_nearest a = a" "\<bar>a\<bar> \<le> f32_max"
      using assms(1) ff(1) by (simp_all add: f32_time_ok_def)
    have "f32_nearest a \<le> f32_nearest (a + b)" using ff(3) by (intro f32_nearest_mono) simp
    then have ge: "a \<le> f32_nearest (a + b)" by (simp add: va)
    then have nl: "\<not> f32_nearest (a + b) < - f32_max" using va(2) by linarith
    show ?thesis
      using ge nl by (auto simp: ff f32_time_ok_def f32_of_real_def Let_def abs_le_iff)
  next
    case fi
    then show ?thesis by (simp add: f32_time_ok_def)
  next
    case it
    then show ?thesis using assms(2) by (auto simp: f32_time_ok_def f32_nonneg_cases)
  qed
  then show "f32_le t (f32_add t z)" and "f32_time_ok (f32_add t z)" by blast+
qed

lemma f32_mul_pos_nonneg:
  assumes "0 < d" and "f32_nonneg z"
  shows "f32_nonneg (f32_mul (Finite d) z)"
  using assms by (auto simp: f32_nonneg_cases[of z] f32_of_real_nonneg) (simp add: f32_nonneg_def)

lemma UpdateSimulation_f32_step:
  assumes "sim_finite sim" and "f32_time_ok (time32 sim)" and "0 < d"
  shows "f32_le (time32 sim) (time32 (UpdateSimulation_f32 (Finite d) sim))"
    and "f32_time_ok (time32 (UpdateSimulation_f32 (Finite d) sim))"
    and "sim_finite (UpdateSimulation_f32 (Finite d) sim)"
proof -
  obtain r where rs: "schwarzschildRadius32 (blackHole32 sim) = Finite r"
    using assms(1) by (cases "schwarzschildRadius32 (blackHole32 sim)") (simp_all add: sim_finite_def)
  have dn: "f32_nonneg (Vector3Distance_f32 (cam_position32 (camera32 sim))
                          (bh_position32 (blackHole32 sim)))"
    using assms(1) by (intro Vector3Distance_f32_nonneg) (simp_all add: sim_finite_def)
  have td: "f32_nonneg (CalculateTimeDilation_f32 (cam_position32 (camera32 sim)) (blackHole32 sim))"
    using rs dn by (rule CalculateTimeDilation_f32_nonneg)
  have z1: "f32_nonneg (f32_mul (Finite d)
              (CalculateTimeDilation_f32 (cam_position32 (camera32 sim)) (blackHole32 sim)))"
    using assms(3) td by (rule f32_mul_pos_nonneg)
  have z2: "f32_nonneg (Finite d)" using assms(3) by (simp add: f32_nonneg_def)
  show "f32_le (time32 sim) (time32 (UpdateSimulation_f32 (Finite d) sim))"
    using f32_add_nonneg_step(1)[OF assms(2) z1] f32_add_nonneg_step(1)[OF assms(2) z2]
    by (simp add: UpdateSimulation_f32_def Let_def)
  show "f32_time_ok (time32 (UpdateSimulation_f32 (Finite d) sim))"
    using f32_add_nonneg_step(2)[OF assms(2) z1] f32_add_nonneg_step(2)[OF assms(2) z2]
    by (simp add: UpdateSimulation_f32_def Let_def)
  show "sim_finite (UpdateSimulation_f32 (Finite d) sim)"
    using assms(1) by (simp add: UpdateSimulation_f32_def Let_def sim_finite_def)
qed

lemma f32_positive_finite:
  "f32_is_finite dt \<Longrightarrow> f32_lt (Finite 0) dt \<Longrightarrow> \<exists>d. dt = Finite d \<and> 0 < d"
  by (cases dt) simp_all

lemma UpdateSimulation_f32_frames_lower:
  assumes "\<forall>dt\<in>set dts. f32_is_finite dt \<and> f32_lt (Finite 0) dt"
    and "sim_finite sim" and "f32_time_ok (time32 sim)"
    and "s \<in> set (UpdateSimulation_f32_frames sim dts)"
  shows "f32_le (time32 sim) (time32 s)"
  using assms
proof (induction dts arbitrary: sim)
  case Nil
  then show ?case by (cases "time32 sim") (simp_all add: f32_time_ok_def)
next
  case (Cons dt dts)
  obtain d where d: "dt = Finite d" "0 < d"
    using Cons.prems(1) f32_positive_finite[of dt] by auto
  note st = UpdateSimulation_f32_step[OF Cons.prems(2,3) d(2)]
  from Cons.prems(4) consider "s = sim"
    | "s \<in> set (UpdateSimulation_f32_frames (UpdateSimulation_f32 dt sim) dts)" by auto
  then show ?case
  proof cases
    case 1
    then show ?thesis using Cons.prems(3) by (cases "time32 sim") (simp_all add: f32_time_ok_def)
  next
    case 2
    have "f32_le (time32 (UpdateSimulation_f32 dt sim)) (time32 s)"
      using Cons.IH[of "UpdateSimulation_f32 dt sim"] Cons.prems(1) st(2,3) 2 by (simp add: d(1))
    then show ?thesis using st(1) f32_le_trans unfolding d(1) by blast
  qed
qed

lemma UpdateSimulation_f32_frames_sorted:
  assumes "\<forall>dt\<in>set dts. f32_is_finite dt \<and> f32_lt (Finite 0) dt"
    and "sim_finite sim" and "f32_time_ok (time32 sim)"
  shows "sorted_wrt f32_le (map time32 (UpdateSimulation_f32_frames sim dts))"
  using assms
proof (induction dts arbitrary: sim)
  case Nil
  then show ?case by simp
next
  case (Cons dt dts)
  obtain d where d: "dt = Finite d" "0 < d"
    using Cons.prems(1) f32_positive_finite[of dt] by auto
  note st = UpdateSimulation_f32_step[OF Cons.prems(2,3) d(2)]
  have tail: "sorted_wrt f32_le (map time32 (UpdateSimulation_f32_frames (UpdateSimulation_f32 dt sim) dts))"
    using Cons.IH[of "UpdateSimulation_f32 dt sim"] Cons.prems(1) st(2,3) by (simp add: d(1))
  have head: "\<forall>s\<in>set (UpdateSimulation_f32_frames (UpdateSimulation_f32 dt sim) dts).
                f32_le (time32 sim) (time32 s)"
  proof
    fix s assume s: "s \<in> set (UpdateSimulation_f32_frames (UpdateSimulation_f32 dt sim) dts)"
    have "f32_le (time32 (UpdateSimulation_f32 dt sim)) (time32 s)"
      using UpdateSimulation_f32_frames_lower[of dts "UpdateSimulation_f32 dt sim" s]
        Cons.prems(1) st(2,3) s by (simp add: d(1))
    then show "f32_le (time32 sim) (time32 s)"
      using st(1) f32_le_trans unfolding d(1) by blast
  qed
  show ?case using tail head by simp
qed

lemma UpdateSimulation_f32_frames_nonempty [simp]: "UpdateSimulation_f32_frames sim dts \<noteq> []"
  by (cases dts) simp_all

lemma UpdateSimulation_f32_off:
  "\<not> showTimeEffects32 sim \<Longrightarrow>
   time32 (UpdateSimulation_f32 dt sim) = f32_add (time32 sim) dt
   \<and> \<not> showTimeEffects32 (UpdateSimulation_f32 dt sim)"
  by (simp add: UpdateSimulation_f32_def Let_def)

lemma UpdateSimulation_f32_frames_off:
  "\<not> showTimeEffects32 sim \<Longrightarrow>
   time32 (last (UpdateSimulation_f32_frames sim (replicate N dt)))
     = ((\<lambda>t. f32_add t dt) ^^ N) (time32 sim)"
proof (induction N arbitrary: sim)
  case 0
  then show ?case by simp
next
  case (Suc N)
  have "time32 (last (UpdateSimulation_f32_frames (UpdateSimulation_f32 dt sim) (replicate N dt)))
        = ((\<lambda>t. f32_add t dt) ^^ N) (time32 (UpdateSimulation_f32 dt sim))"
    using Suc.IH[of "UpdateSimulation_f32 dt sim"] Suc.prems UpdateSimulation_f32_off by blast
  then show ?case
    using Suc.prems funpow_swap1[of "\<lambda>t. f32_add t dt" N "time32 sim"]
    by (simp add: UpdateSimulation_f32_off)
qed


subsection \<open>Three frames of a sixtieth of a second\<close>

lemma nearest_delta: "f32_nearest (1 / 60) = 8947849 / 536870912"
  using f32_nearest_at[where x = "1 / 60" and e = "- 6" and m = 8947849]
  by (simp add: pow2_def)

lemma nearest_delta_exact: "f32_nearest (8947849 / 536870912) = 8947849 / 536870912"
  using f32_nearest_idem[of "1 / 60"] by (simp only: nearest_delta)

lemma nearest_2_delta: "f32_nearest (8947849 / 268435456) = 8947849 / 268435456"
  by (rule f32_nearest_exact_int[where e = "- 5" and m = 8947849]) (simp_all add: pow2_def)

lemma nearest_3_delta: "f32_nearest (26843547 / 536870912) = 26843548 / 536870912"
  using f32_nearest_eval[where x = "26843547 / 536870912" and e = "- 5"]
  by (simp add: pow2_def rne_def Let_def)

lemma f32_add_delta_0: "f32_add (Finite 0) (Finite (8947849 / 536870912)) = Finite (8947849 / 536870912)"
  by (simp add: f32_of_real_exact nearest_delta_exact f32_max_value)

lemma f32_add_delta_1:
  "f32_add (Finite (8947849 / 536870912)) (Finite (8947849 / 536870912))
   = Finite (8947849 / 268435456)"
  by (simp add: f32_of_real_exact nearest_2_delta f32_max_value)

lemma f32_add_delta_2:
  "f32_add (Finite (8947849 / 268435456)) (Finite (8947849 / 536870912))
   = Finite (26843548 / 536870912)"
  by (simp add: f32_of_real_finite nearest_3_delta f32_max_value)



end
